theory Spec2Isabelle
  imports Complex_Main "HOL-Library.Multiset"
begin

section \<open>The matching game of src/js/app.js\<close>

text \<open>
  The program is a browser script: four classes (Card, Deck, Scoreboard, Game) whose
  methods read and write the page through jQuery, two kinds of one-shot timers
  (\<^verbatim>\<open>setTimeout\<close> in \<^verbatim>\<open>Card.show\<close> and \<^verbatim>\<open>Card.hide\<close>), one interval timer (the
  scoreboard's clock) and \<^verbatim>\<open>Math.random\<close>. The embedding passes one state record
  through every method. It holds the fields of the Game object and, beside them, the
  part of the browser the script touches: the card elements with their class sets and
  click handlers, the children of \<^verbatim>\<open>.deck\<close>, the star list, the two text nodes,
  the visibility of the score modal, the clock, the queue of pending timeouts, the
  stream of numbers \<^verbatim>\<open>Math.random\<close> will return and the multiplication of the
  machine's floating-point numbers.
\<close>

subsection \<open>Card\<close>

text \<open>
  \<^verbatim>\<open>this.type\<close> and \<^verbatim>\<open>this.elem\<close>. The cards of a Deck have no element
  (\<^verbatim>\<open>elem\<close> is undefined); the cards made by \<^verbatim>\<open>Card.fromElem\<close> refer to an
  \<^verbatim>\<open>li\<close> element, here by its address in the element store.
\<close>

record Card =
  ctype :: string
  elem :: "nat option"

definition new_Card :: "string \<Rightarrow> Card" where
  "new_Card t = \<lparr>ctype = t, elem = None\<rparr>"

definition Card_toHtml :: "Card \<Rightarrow> string" where
  "Card_toHtml c = ''<li class=\"card\"><i class=\"fa fa-'' @ ctype c @ ''\"></i></li>''"

definition Card_isEqual :: "Card \<Rightarrow> Card \<Rightarrow> bool" where
  "Card_isEqual c d = (ctype c = ctype d)"

subsection \<open>Elements of the page\<close>

text \<open>
  An \<^verbatim>\<open>li\<close> element of the deck: its set of class names, the class attribute of
  its \<^verbatim>\<open>i\<close> child (None when there is no such child or attribute), and the number of
  click handlers bound to it (\<^verbatim>\<open>on\<close> adds one, \<^verbatim>\<open>off\<close> removes them all).
\<close>

record element =
  classes :: "string set"
  childClass :: "string option"
  handlers :: nat

text \<open>
  \<^verbatim>\<open>Card.determineType\<close>: \<^verbatim>\<open>className.substr(6)\<close> of the child's class attribute.
  When the attribute is undefined, \<^verbatim>\<open>substr\<close> raises a TypeError: None.
\<close>

definition Card_determineType :: "element \<Rightarrow> string option" where
  "Card_determineType cardElem =
     (case childClass cardElem of
        None \<Rightarrow> None
      | Some className \<Rightarrow> Some (drop 6 className))"

subsection \<open>Deck\<close>

record Deck =
  cardTypeCount :: nat
  cards :: "Card list"

text \<open>The constructor: \<^verbatim>\<open>forEach\<close> pushes two new cards for each type, in order.\<close>

definition new_Deck :: "string list \<Rightarrow> Deck" where
  "new_Deck cardTypes =
     \<lparr>cardTypeCount = length cardTypes,
      cards = foldl (\<lambda>cs cardType. (cs @ [new_Card cardType]) @ [new_Card cardType])
                [] cardTypes\<rparr>"

definition Deck_getCardTypeCount :: "Deck \<Rightarrow> nat" where
  "Deck_getCardTypeCount d = cardTypeCount d"

text \<open>
  The loop of \<^verbatim>\<open>Deck.shuffle\<close>. JavaScript numbers are IEEE 754 doubles, and
  \<^verbatim>\<open>Math.random() * currentIndex\<close> is a product of doubles, rounded to a double
  before \<^verbatim>\<open>Math.floor\<close> sees it. Neither \<^verbatim>\<open>Math.random\<close> nor the multiplication
  is code of the repository, so both are parameters here: \<open>rnd k\<close> is the double the
  \<open>k\<close>-th call of \<^verbatim>\<open>Math.random\<close> returns, and \<open>mul x y\<close> is the double the
  machine returns for the product of the doubles \<open>x\<close> and \<open>y\<close>. Doubles are the
  reals they denote; \<^verbatim>\<open>currentIndex\<close> is an integer below \<open>2^32\<close> and so a double. What
  the language promises of the two parameters is the predicate \<open>ieee_draws\<close> below; the
  theorems about the shuffle assume it, and then both indices are inside the array.
\<close>

fun shuffle_loop ::
  "(real \<Rightarrow> real \<Rightarrow> real) \<Rightarrow> (nat \<Rightarrow> real) \<Rightarrow> nat \<Rightarrow> nat \<Rightarrow> 'a list \<Rightarrow> 'a list" where
  "shuffle_loop mul rnd k currentIndex cs =
     (if currentIndex \<noteq> 0 then
        (let randomIndex = nat \<lfloor>mul (rnd k) (real currentIndex)\<rfloor>;
             currentIndex' = currentIndex - 1;
             temporaryValue = cs ! currentIndex';
             cs1 = cs[currentIndex' := cs ! randomIndex];
             cs2 = cs1[randomIndex := temporaryValue]
         in shuffle_loop mul rnd (k + 1) currentIndex' cs2)
      else cs)"

declare shuffle_loop.simps [simp del]

definition Deck_shuffle ::
  "(real \<Rightarrow> real \<Rightarrow> real) \<Rightarrow> (nat \<Rightarrow> real) \<Rightarrow> nat \<Rightarrow> Deck \<Rightarrow> Deck" where
  "Deck_shuffle mul rnd k d =
     d\<lparr>cards := shuffle_loop mul rnd k (length (cards d)) (cards d)\<rparr>"

subsection \<open>Scoreboard\<close>

text \<open>
  \<^verbatim>\<open>timerId\<close> is None for null and otherwise holds the \<^verbatim>\<open>startTime\<close> the
  interval's callback has captured: at most one interval is alive, the one
  \<^verbatim>\<open>timerId\<close> names. \<^verbatim>\<open>finalScoreModal\<close> is the handle of \<^verbatim>\<open>#myModal\<close>;
  whether that element is shown is the field \<open>modalVisible\<close> of the state below.
  Move counts are natural numbers.
\<close>

record Scoreboard =
  moves :: nat
  stars :: nat
  timeTaken :: nat
  timerId :: "nat option"

definition new_Scoreboard :: Scoreboard where
  "new_Scoreboard = \<lparr>moves = 0, stars = 3, timeTaken = 0, timerId = None\<rparr>"

subsection \<open>The state: the Game object and the page\<close>

datatype timer_action = AddOpenShow | RemoveOpenShow

text \<open>
  A pending timeout is the time it is due, what its callback does, and the card the
  callback closes over. The last four fields are the environment: the draws of
  \<^verbatim>\<open>Math.random\<close> and how many have been made, the multiplication of doubles, and
  what jQuery and the browser make of a card's markup (see \<open>append_card\<close> below).
\<close>

record state =
  deck :: Deck
  matches :: nat
  scoreboard :: Scoreboard
  openCards :: "Card list"
  elems :: "nat \<Rightarrow> element"
  nextElem :: nat
  deckElem :: "nat list"
  starsElem :: nat
  movesText :: "nat option"
  timeTakenText :: "nat option"
  modalVisible :: bool
  now :: nat
  timeouts :: "(nat \<times> timer_action \<times> Card) list"
  random :: "nat \<Rightarrow> real"
  randomPos :: nat
  mult64 :: "real \<Rightarrow> real \<Rightarrow> real"
  markupChildClass :: "string \<Rightarrow> string option"

subsubsection \<open>jQuery on card elements\<close>

definition addClass :: "string list \<Rightarrow> nat \<Rightarrow> state \<Rightarrow> state" where
  "addClass cs e s =
     s\<lparr>elems := (elems s)(e := (elems s e)\<lparr>classes := classes (elems s e) \<union> set cs\<rparr>)\<rparr>"

definition removeClass :: "string list \<Rightarrow> nat \<Rightarrow> state \<Rightarrow> state" where
  "removeClass cs e s =
     s\<lparr>elems := (elems s)(e := (elems s e)\<lparr>classes := classes (elems s e) - set cs\<rparr>)\<rparr>"

definition hasClass :: "string \<Rightarrow> nat \<Rightarrow> state \<Rightarrow> bool" where
  "hasClass c e s = (c \<in> classes (elems s e))"

text \<open>
  \<^verbatim>\<open>$('.card')\<close>: the elements of the document with class \<^verbatim>\<open>card\<close>. The page is
  taken to have none outside \<^verbatim>\<open>.deck\<close>. Elements removed by \<^verbatim>\<open>empty()\<close> stay in
  the store (old cards and timeouts still refer to them) but are no longer in the
  document.
\<close>

definition sel_card :: "state \<Rightarrow> nat list" where
  "sel_card s = filter (\<lambda>e. ''card'' \<in> classes (elems s e)) (deckElem s)"

definition not_match :: "state \<Rightarrow> nat list \<Rightarrow> nat list" where
  "not_match s es = filter (\<lambda>e. ''match'' \<notin> classes (elems s e)) es"

definition off_click :: "nat list \<Rightarrow> state \<Rightarrow> state" where
  "off_click es s =
     s\<lparr>elems := (\<lambda>e. if e \<in> set es then (elems s e)\<lparr>handlers := 0\<rparr> else elems s e)\<rparr>"

definition on_click :: "nat list \<Rightarrow> state \<Rightarrow> state" where
  "on_click es s =
     s\<lparr>elems := (\<lambda>e. if e \<in> set es then (elems s e)\<lparr>handlers := handlers (elems s e) + 1\<rparr>
                      else elems s e)\<rparr>"

text \<open>
  \<^verbatim>\<open>deckElem.append(card.toHtml())\<close>. Turning the markup into an element is the work
  of jQuery and of the browser's parser. Neither is in the repository, and which jQuery
  the page loads is not either (releases before 3.5 rewrite the markup before it is
  parsed). The markup is taken to build one element. It begins with the literal tag
  \<^verbatim>\<open><li class="card">\<close>, so the element has the class \<^verbatim>\<open>card\<close>; it is new, so it
  has no handler. The class attribute its \<^verbatim>\<open>i\<close> child ends up with is what the page
  makes of the markup: \<open>markupChildClass\<close>, a field of the state.
\<close>

definition append_card :: "Card \<Rightarrow> state \<Rightarrow> state" where
  "append_card c s =
     s\<lparr>elems := (elems s)(nextElem s :=
                \<lparr>classes = {''card''},
                 childClass = markupChildClass s (Card_toHtml c),
                 handlers = 0\<rparr>),
       deckElem := deckElem s @ [nextElem s],
       nextElem := nextElem s + 1\<rparr>"

subsubsection \<open>Card methods that touch the page\<close>

definition Card_lock :: "Card \<Rightarrow> state \<Rightarrow> state" where
  "Card_lock c s =
     (case elem c of
        None \<Rightarrow> s
      | Some e \<Rightarrow> removeClass [''open'', ''show''] e (addClass [''match''] e s))"

definition Card_hide :: "Card \<Rightarrow> state \<Rightarrow> state" where
  "Card_hide c s = s\<lparr>timeouts := timeouts s @ [(now s + 800, RemoveOpenShow, c)]\<rparr>"

definition Card_show :: "Card \<Rightarrow> state \<Rightarrow> state" where
  "Card_show c s = s\<lparr>timeouts := timeouts s @ [(now s + 50, AddOpenShow, c)]\<rparr>"

text \<open>The callbacks of the two timeouts; both do nothing for a card without element.\<close>

definition run_timeout :: "state \<Rightarrow> nat \<times> timer_action \<times> Card \<Rightarrow> state" where
  "run_timeout s x =
     (case elem (snd (snd x)) of
        None \<Rightarrow> s
      | Some e \<Rightarrow>
          (case fst (snd x) of
             AddOpenShow \<Rightarrow> addClass [''open'', ''show''] e s
           | RemoveOpenShow \<Rightarrow> removeClass [''open'', ''show''] e s))"

definition Card_fromElem :: "nat \<Rightarrow> state \<Rightarrow> Card option" where
  "Card_fromElem cardElem s =
     (case Card_determineType (elems s cardElem) of
        None \<Rightarrow> None
      | Some t \<Rightarrow> Some \<lparr>ctype = t, elem = Some cardElem\<rparr>)"

subsubsection \<open>Deck.display\<close>

definition Deck_display :: "state \<Rightarrow> state" where
  "Deck_display s =
     (let d = Deck_shuffle (mult64 s) (random s) (randomPos s) (deck s);
          s1 = s\<lparr>deck := d, randomPos := randomPos s + length (cards (deck s))\<rparr>;
          s2 = s1\<lparr>deckElem := []\<rparr>
      in foldl (\<lambda>s' c. append_card c s') s2 (cards d))"

subsubsection \<open>Scoreboard methods\<close>

definition Scoreboard_start :: "state \<Rightarrow> state" where
  "Scoreboard_start s =
     (if timerId (scoreboard s) = None
      then s\<lparr>scoreboard := (scoreboard s)\<lparr>timerId := Some (now s)\<rparr>\<rparr>
      else s)"

definition Scoreboard_updateTimeTaken :: "state \<Rightarrow> state" where
  "Scoreboard_updateTimeTaken s = s\<lparr>timeTakenText := Some (timeTaken (scoreboard s))\<rparr>"

definition Scoreboard_updateScore :: "state \<Rightarrow> state" where
  "Scoreboard_updateScore s =
     (let newVal = (if moves (scoreboard s) < 15 then 3
                    else if moves (scoreboard s) < 25 then 2
                    else 1);
          s1 = (if stars (scoreboard s) \<noteq> newVal
                then s\<lparr>starsElem := newVal, scoreboard := (scoreboard s)\<lparr>stars := newVal\<rparr>\<rparr>
                else s)
      in s1\<lparr>movesText := Some (moves (scoreboard s1))\<rparr>)"

definition Scoreboard_reset :: "state \<Rightarrow> state" where
  "Scoreboard_reset s =
     Scoreboard_updateTimeTaken (Scoreboard_updateScore
       (s\<lparr>scoreboard := \<lparr>moves = 0, stars = 0, timeTaken = 0, timerId = None\<rparr>\<rparr>))"

definition Scoreboard_incrementMoves :: "state \<Rightarrow> state" where
  "Scoreboard_incrementMoves s =
     Scoreboard_updateScore
       (s\<lparr>scoreboard := (scoreboard s)\<lparr>moves := moves (scoreboard s) + 1\<rparr>\<rparr>)"

definition Scoreboard_showFinalScores :: "state \<Rightarrow> state" where
  "Scoreboard_showFinalScores s =
     s\<lparr>scoreboard := (scoreboard s)\<lparr>timerId := None\<rparr>, modalVisible := \<not> modalVisible s\<rparr>"

definition Scoreboard_closeFinalScores :: "state \<Rightarrow> state" where
  "Scoreboard_closeFinalScores s = s\<lparr>modalVisible := \<not> modalVisible s\<rparr>"

subsubsection \<open>Game\<close>

text \<open>
  The constructor writes the four fields of the Game; \<open>w\<close> is the page as loaded.
  The three handlers it binds to the modal's buttons are the events \<open>CloseClick\<close>,
  \<open>NoClick\<close> and \<open>YesClick\<close> below, and the handler \<^verbatim>\<open>start\<close> binds to
  \<^verbatim>\<open>.restart\<close> is the event \<open>RestartClick\<close>.
\<close>

definition new_Game :: "Deck \<Rightarrow> state \<Rightarrow> state" where
  "new_Game d w = w\<lparr>deck := d, matches := 0, scoreboard := new_Scoreboard, openCards := []\<rparr>"

definition Game_start :: "state \<Rightarrow> state" where
  "Game_start s = (let s1 = Deck_display s in on_click (sel_card s1) s1)"

definition Game_finish :: "state \<Rightarrow> state" where
  "Game_finish s = Scoreboard_showFinalScores s"

text \<open>None: \<^verbatim>\<open>Card.fromElem\<close> raised, nothing was pushed.\<close>

definition Game_openCard :: "nat \<Rightarrow> state \<Rightarrow> state option" where
  "Game_openCard cardElem s =
     (case Card_fromElem cardElem s of
        None \<Rightarrow> None
      | Some c \<Rightarrow> Some ((Card_show c s)\<lparr>openCards := openCards s @ [c]\<rparr>))"

definition Game_isMatched :: "state \<Rightarrow> bool" where
  "Game_isMatched s =
     (length (openCards s) > 1 \<and> Card_isEqual (openCards s ! 0) (openCards s ! 1))"

text \<open>
  \<^verbatim>\<open>lockMatched\<close> reads \<^verbatim>\<open>openCards[0]\<close> and \<^verbatim>\<open>openCards[1]\<close>. With fewer
  than two open cards the call of \<^verbatim>\<open>lock\<close> on the missing card raises and the
  method stops there; its one caller has checked \<^verbatim>\<open>isMatched\<close>, so those two
  branches are never taken from a click.
\<close>

definition Game_lockMatched :: "state \<Rightarrow> state" where
  "Game_lockMatched s =
     (let s1 = s\<lparr>matches := matches s + 1\<rparr>;
          s2 = off_click (sel_card s1) s1
      in case openCards s2 of
           [] \<Rightarrow> s2
         | [c0] \<Rightarrow> Card_lock c0 s2
         | c0 # c1 # _ \<Rightarrow>
             (let s3 = Card_lock c0 s2;
                  s4 = Card_lock c1 s3;
                  s5 = on_click (not_match s4 (sel_card s4)) s4
              in if matches s5 \<ge> Deck_getCardTypeCount (deck s5) then Game_finish s5 else s5))"

definition Game_hideUnmatched :: "state \<Rightarrow> state" where
  "Game_hideUnmatched s =
     (if length (openCards s) > 1 then foldl (\<lambda>s' c. Card_hide c s') s (openCards s) else s)"

definition Game_handleScoreModalClose :: "state \<Rightarrow> state" where
  "Game_handleScoreModalClose s = Scoreboard_closeFinalScores s"

text \<open>
  What \<^verbatim>\<open>handleCardClick\<close> does once the card is pushed: the body of
  \<^verbatim>\<open>if (this.openCards.length > 1)\<close>.
\<close>

definition resolve :: "state \<Rightarrow> state" where
  "resolve s =
     (if length (openCards s) > 1 then
        (let s1 = (if Game_isMatched s then Game_lockMatched s else Game_hideUnmatched s);
             s2 = s1\<lparr>openCards := []\<rparr>
         in Scoreboard_incrementMoves s2)
      else s)"

text \<open>
  \<open>cardElem\<close> is \<^verbatim>\<open>$(event.target)\<close>. When \<^verbatim>\<open>Card.fromElem\<close> raises, the handler
  stops there and the scoreboard's clock stays started.
\<close>

definition Game_handleCardClick :: "nat \<Rightarrow> state \<Rightarrow> state" where
  "Game_handleCardClick cardElem s =
     (if hasClass ''open'' cardElem s then s
      else
        (let s1 = Scoreboard_start s
         in case Game_openCard cardElem s1 of
              None \<Rightarrow> s1
            | Some s2 \<Rightarrow> resolve s2))"

definition Game_handleRestart :: "state \<Rightarrow> state" where
  "Game_handleRestart s =
     (let s1 = off_click (sel_card s) s;
          s2 = Scoreboard_reset s1;
          s3 = s2\<lparr>matches := 0\<rparr>;
          s4 = s3\<lparr>openCards := []\<rparr>;
          s5 = Deck_display s4
      in on_click (sel_card s5) s5)"

definition Game_handlePlayAgain :: "state \<Rightarrow> state" where
  "Game_handlePlayAgain s = Game_handleRestart (Scoreboard_closeFinalScores s)"

definition main :: "string list \<Rightarrow> state \<Rightarrow> state" where
  "main cardTypes w = Game_start (new_Game (new_Deck cardTypes) w)"

subsection \<open>Events\<close>

text \<open>
  The script runs only inside event handlers and timer callbacks. \<open>CardClick p\<close> is a
  click whose target is the \<open>p\<close>-th child of \<^verbatim>\<open>.deck\<close>: it runs
  \<^verbatim>\<open>handleCardClick\<close> once for each handler bound to that element, and nothing when
  there is no such child. (A click that lands on the icon inside a card has the
  \<^verbatim>\<open>i\<close> element as its target; such clicks are not among the events here.) \<open>Elapse d\<close> lets \<open>d\<close> milliseconds pass: the timeouts that
  fall due run in the order of their due times (those due together in the order they
  were set), and the scoreboard's interval, when it has ticked, leaves the seconds of
  its last tick in \<^verbatim>\<open>timeTaken\<close>. Timers are taken to fire on time.
\<close>

datatype event =
  CardClick nat | RestartClick | CloseClick | NoClick | YesClick | Elapse nat

definition click_card :: "nat \<Rightarrow> state \<Rightarrow> state" where
  "click_card p s =
     (if p < length (deckElem s)
      then (Game_handleCardClick (deckElem s ! p) ^^ handlers (elems s (deckElem s ! p))) s
      else s)"

definition interval_ticks :: "nat \<Rightarrow> nat \<Rightarrow> state \<Rightarrow> state" where
  "interval_ticks t0 t1 s =
     (case timerId (scoreboard s) of
        None \<Rightarrow> s
      | Some startTime \<Rightarrow>
          if (t0 - startTime) div 1000 < (t1 - startTime) div 1000
          then Scoreboard_updateTimeTaken
                 (s\<lparr>scoreboard := (scoreboard s)\<lparr>timeTaken := (t1 - startTime) div 1000\<rparr>\<rparr>)
          else s)"

definition elapse :: "nat \<Rightarrow> state \<Rightarrow> state" where
  "elapse d s =
     (let t = now s + d;
          due = sort_key fst (filter (\<lambda>x. fst x \<le> t) (timeouts s));
          s1 = s\<lparr>now := t, timeouts := filter (\<lambda>x. \<not> fst x \<le> t) (timeouts s)\<rparr>;
          s2 = foldl run_timeout s1 due
      in interval_ticks (now s) t s2)"

fun step :: "state \<Rightarrow> event \<Rightarrow> state" where
  "step s (CardClick p) = click_card p s"
| "step s RestartClick = Game_handleRestart s"
| "step s CloseClick = Game_handleScoreModalClose s"
| "step s NoClick = Game_handleScoreModalClose s"
| "step s YesClick = Game_handlePlayAgain s"
| "step s (Elapse d) = elapse d s"

definition run :: "event list \<Rightarrow> state \<Rightarrow> state" where
  "run evs s = foldl step s evs"

subsection \<open>Definitions used to state the properties\<close>

text \<open>
  The Fisher-Yates scheme in the words of the specification: for each index \<open>i\<close> from
  the last down to 1, swap position \<open>i\<close> with the position \<open>j i\<close> chosen for it.
\<close>

fun fisher_yates :: "(nat \<Rightarrow> nat) \<Rightarrow> nat \<Rightarrow> 'a list \<Rightarrow> 'a list" where
  "fisher_yates j 0 xs = xs"
| "fisher_yates j (Suc i) xs =
     fisher_yates j i (xs[Suc i := xs ! j (Suc i), j (Suc i) := xs ! Suc i])"

text \<open>
  The position \<^verbatim>\<open>Deck.shuffle\<close> chooses for index \<open>i\<close> of an array of \<open>n\<close> cards
  when its first draw is the \<open>k\<close>-th of the stream: index \<open>i\<close> is handled in the
  iteration with \<^verbatim>\<open>currentIndex\<close> \<open>= i + 1\<close>, which makes draw \<open>k + (n - 1 - i)\<close>
  and floors the machine's product of that draw and \<^verbatim>\<open>currentIndex\<close>.
\<close>

definition chosen ::
  "(real \<Rightarrow> real \<Rightarrow> real) \<Rightarrow> (nat \<Rightarrow> real) \<Rightarrow> nat \<Rightarrow> nat \<Rightarrow> nat \<Rightarrow> nat" where
  "chosen mul rnd k n i = nat \<lfloor>mul (rnd (k + (n - 1 - i))) (real (i + 1))\<rfloor>"

text \<open>
  What the language promises of \<^verbatim>\<open>Math.random\<close> and of the multiplication. The
  finite doubles are the numbers \<open>m * 2^e\<close> with \<open>|m| < 2^53\<close> and
  \<open>-1074 \<le> e \<le> 971\<close>, written here with two natural exponents. IEEE 754
  multiplication returns a double nearest to the exact product when that is in range;
  which of two nearest doubles it returns at a tie is left open here.
  \<^verbatim>\<open>Math.random\<close> returns a double that is at least 0 and below 1. \<open>ieee_draws\<close>
  says this of every draw and of the products of a draw with the values
  \<^verbatim>\<open>currentIndex\<close> takes in an array of \<open>n\<close> elements, and that \<open>n\<close> is a length a
  JavaScript array can have.
\<close>

definition doubles :: "real set" where
  "doubles =
     {real_of_int m * 2 ^ a / 2 ^ b | m a b. \<bar>m\<bar> < 2 ^ 53 \<and> a \<le> 971 \<and> b \<le> 1074}"

definition nearest_double :: "real \<Rightarrow> real \<Rightarrow> bool" where
  "nearest_double x p \<longleftrightarrow> p \<in> doubles \<and> (\<forall>d \<in> doubles. \<bar>p - x\<bar> \<le> \<bar>d - x\<bar>)"

definition ieee_draws :: "(real \<Rightarrow> real \<Rightarrow> real) \<Rightarrow> (nat \<Rightarrow> real) \<Rightarrow> nat \<Rightarrow> bool" where
  "ieee_draws mul rnd n \<longleftrightarrow>
     n < 2 ^ 32 \<and>
     (\<forall>k. rnd k \<in> doubles \<and> 0 \<le> rnd k \<and> rnd k < 1) \<and>
     (\<forall>k i. 0 < i \<and> i \<le> n \<longrightarrow> nearest_double (rnd k * real i) (mul (rnd k) (real i)))"

text \<open>
  A page to run examples on. \<^verbatim>\<open>index.html\<close> is not among the sources, so every
  general theorem below takes the loaded page as a parameter; this one has an empty
  deck, three stars, a hidden modal, no timer and a \<^verbatim>\<open>Math.random\<close> that always
  returns 0 (products with 0 are exact). It reads the class attribute of the \<^verbatim>\<open>i\<close>
  child off the markup as the text between the quote that opens it and the next double
  quote, where an HTML parser ends a double-quoted attribute value; \<open>after p s\<close> is the
  text of \<open>s\<close> behind the first occurrence of \<open>p\<close>.
\<close>

fun after :: "string \<Rightarrow> string \<Rightarrow> string" where
  "after p [] = []"
| "after p (c # cs) =
     (if take (length p) (c # cs) = p then drop (length p) (c # cs) else after p cs)"

definition attr_value :: "string \<Rightarrow> string" where
  "attr_value s = takeWhile (\<lambda>c. c \<noteq> CHR 0x22) s"

definition quoted_child_class :: "string \<Rightarrow> string option" where
  "quoted_child_class html = Some (attr_value (after ''class=\"'' (after ''<i '' html)))"

definition example_page :: state where
  "example_page =
     \<lparr>deck = \<lparr>cardTypeCount = 0, cards = []\<rparr>, matches = 0, scoreboard = new_Scoreboard,
      openCards = [], elems = (\<lambda>_. \<lparr>classes = {}, childClass = None, handlers = 0\<rparr>),
      nextElem = 0, deckElem = [], starsElem = 3, movesText = None, timeTakenText = None,
      modalVisible = False, now = 0, timeouts = [], random = (\<lambda>_. 0), randomPos = 0,
      mult64 = (\<lambda>x y. x * y), markupChildClass = quoted_child_class\<rparr>"

text \<open>
  Two states of a game with the types \<^verbatim>\<open>a\<close> and \<^verbatim>\<open>b\<close> on that page (the shuffle
  leaves the cards in the order a, b, b, a): after a click on card 0; and after the two
  \<^verbatim>\<open>b\<close> cards have been matched and card 0 clicked.
\<close>

definition example_pending :: state where
  "example_pending = run [CardClick 0] (main [''a'', ''b''] example_page)"

definition example_last_pair :: state where
  "example_last_pair =
     run [CardClick 1, CardClick 2, CardClick 0] (main [''a'', ''b''] example_page)"

text \<open>The clicks on the score modal's buttons, as opposed to the other inputs.\<close>

fun modal_button :: "event \<Rightarrow> bool" where
  "modal_button CloseClick = True"
| "modal_button NoClick = True"
| "modal_button YesClick = True"
| "modal_button _ = False"

text \<open>
  What holds of every state the game reaches: at most one card is pending and it has an
  element; no timeout is due later than 800 ms from now; every card element of the deck
  has the class \<^verbatim>\<open>card\<close>, at most one click handler, and none when it is matched.
\<close>

definition invariant :: "state \<Rightarrow> bool" where
  "invariant s \<longleftrightarrow>
     length (openCards s) \<le> 1 \<and>
     (\<forall>c \<in> set (openCards s). elem c \<noteq> None) \<and>
     (\<forall>x \<in> set (timeouts s). fst x \<le> now s + 800) \<and>
     (\<forall>e \<in> set (deckElem s).
        ''card'' \<in> classes (elems s e) \<and> handlers (elems s e) \<le> 1 \<and>
        (''match'' \<in> classes (elems s e) \<longrightarrow> handlers (elems s e) = 0))"

section \<open>Properties\<close>

subsection \<open>Deck construction\<close>

lemma new_Deck_cards:
  "cards (new_Deck ts) = concat (map (\<lambda>t. [new_Card t, new_Card t]) ts)"
proof -
  have "foldl (\<lambda>cs t. (cs @ [new_Card t]) @ [new_Card t]) acc ts
        = acc @ concat (map (\<lambda>t. [new_Card t, new_Card t]) ts)" for acc
    by (induction ts arbitrary: acc) simp_all
  from this [of "[]"] show ?thesis by (simp add: new_Deck_def)
qed

lemma count_new_Deck:
  "count_list (map ctype (cards (new_Deck ts))) t = 2 * count_list ts t"
  unfolding new_Deck_cards by (induction ts) (simp_all add: new_Card_def)

lemma length_new_Deck: "length (cards (new_Deck ts)) = 2 * length ts"
  unfolding new_Deck_cards by (induction ts) simp_all

lemma count_list_distinct: "distinct ts \<Longrightarrow> t \<in> set ts \<Longrightarrow> count_list ts t = 1"
  by (induction ts) auto

text \<open>
  \<^verbatim>\<open>getCardTypeCount()\<close> is the length of the list the deck was built from: the
  number of distinct types on the cards when that list has no duplicates.
\<close>

lemma types_new_Deck: "set (map ctype (cards (new_Deck ts))) = set ts"
  unfolding new_Deck_cards by (induction ts) (auto simp add: new_Card_def)

lemma getCardTypeCount_distinct:
  "distinct ts \<Longrightarrow>
     Deck_getCardTypeCount (new_Deck ts) = card (set (map ctype (cards (new_Deck ts))))"
  unfolding types_new_Deck by (simp add: Deck_getCardTypeCount_def new_Deck_def distinct_card)

text \<open>
  C1: the deck built from a list of distinct card types has \<open>2 * length ts\<close> cards and
  every type of the list is the type of exactly two of them; no card has another type.
\<close>

theorem new_Deck_two_of_each:
  assumes "distinct ts"
  shows "length (cards (new_Deck ts)) = 2 * length ts \<and>
         (\<forall>t \<in> set ts. count_list (map ctype (cards (new_Deck ts))) t = 2) \<and>
         set (map ctype (cards (new_Deck ts))) = set ts"
  using assms types_new_Deck [of ts]
  by (simp add: length_new_Deck count_new_Deck count_list_distinct)

theorem new_Deck_two_of_each_witness:
  "distinct [''anchor'', ''bolt''] \<and>
   length (cards (new_Deck [''anchor'', ''bolt''])) = 4 \<and>
   count_list (map ctype (cards (new_Deck [''anchor'', ''bolt'']))) ''anchor'' = 2 \<and>
   count_list (map ctype (cards (new_Deck [''anchor'', ''bolt'']))) ''bolt'' = 2"
proof -
  have d: "distinct [''anchor'', ''bolt'']" by simp
  from new_Deck_two_of_each [OF d] d show ?thesis by simp
qed

subsection \<open>The random index\<close>

text \<open>
  Why \<^verbatim>\<open>Math.floor(Math.random() * currentIndex)\<close> is an index below
  \<^verbatim>\<open>currentIndex\<close>, although the product is rounded. The largest double below 1 is
  \<open>1 - 2^-53\<close>, so the exact product stays \<open>currentIndex / 2^53\<close> below
  \<^verbatim>\<open>currentIndex\<close>; that is more than half the distance between \<^verbatim>\<open>currentIndex\<close>
  and the double before it, which therefore is nearer to the product than
  \<^verbatim>\<open>currentIndex\<close> or anything above it.
\<close>

lemma doublesI:
  "\<bar>m\<bar> < 2 ^ 53 \<Longrightarrow> a \<le> 971 \<Longrightarrow> b \<le> 1074 \<Longrightarrow> real_of_int m * 2 ^ a / 2 ^ b \<in> doubles"
  unfolding doubles_def by blast

lemma zero_double: "0 \<in> doubles"
  using doublesI [of 0 0 0] by simp

lemma nearest_double_self: "x \<in> doubles \<Longrightarrow> nearest_double x x"
  by (simp add: nearest_double_def)

lemma double_below_one:
  assumes "r \<in> doubles" and "r < 1"
  shows "r \<le> 1 - 1 / 2 ^ 53"
proof -
  from assms(1) obtain m :: int and a b :: nat
    where r: "r = real_of_int m * 2 ^ a / 2 ^ b" and m: "\<bar>m\<bar> < 2 ^ 53"
    unfolding doubles_def by blast
  show ?thesis
  proof (cases "b \<le> a + 53")
    case True
    define c where "c = a + 53 - b"
    have c: "a + 53 = b + c" using True by (simp add: c_def)
    have "r * 2 ^ 53 = real_of_int m * 2 ^ (a + 53) / 2 ^ b"
      by (simp add: r power_add)
    also have "\<dots> = real_of_int (m * 2 ^ c)"
      by (simp add: c power_add)
    finally have k: "r * 2 ^ 53 = real_of_int (m * 2 ^ c)" .
    have "r * 2 ^ 53 < 2 ^ 53" using assms(2) by simp
    then have "real_of_int (m * 2 ^ c) < real_of_int (2 ^ 53)" using k by simp
    then have "m * 2 ^ c < 2 ^ 53" by linarith
    then have "m * 2 ^ c \<le> 2 ^ 53 - 1" by simp
    then have "real_of_int (m * 2 ^ c) \<le> real_of_int (2 ^ 53 - 1)" by linarith
    then have "r * 2 ^ 53 \<le> 2 ^ 53 - 1" using k by simp
    then show ?thesis by (simp add: field_simps)
  next
    case False
    define c where "c = b - (a + 54)"
    have c: "b = a + 54 + c" using False by (simp add: c_def)
    have "r = real_of_int m / (2 ^ 54 * 2 ^ c)"
      by (simp add: r c power_add)
    also have "\<dots> \<le> \<bar>real_of_int m\<bar> / (2 ^ 54 * 2 ^ c)"
      by (intro divide_right_mono) simp_all
    also have "\<dots> \<le> 2 ^ 53 / (2 ^ 54 * 2 ^ c)"
      using m by (intro divide_right_mono) simp_all
    also have "\<dots> \<le> 2 ^ 53 / 2 ^ 54"
      by (intro divide_left_mono) simp_all
    finally show ?thesis by simp
  qed
qed

lemma power_two_bracket:
  fixes n :: nat
  assumes "0 < n" and "n \<le> 2 ^ 53"
  obtains c :: nat where "c \<le> 53" and "n \<le> 2 ^ c" and "2 ^ c < 2 * n"
proof (cases "n = 1")
  case True
  show ?thesis by (rule that [of 0]) (simp_all add: True)
next
  case False
  with assms(1) have "2 \<le> n" by simp
  from ex_power_ivl2 [OF _ this, of 2]
  obtain e where e: "2 ^ e < n" "n \<le> 2 ^ (e + 1)" by auto
  have "(2::nat) ^ e < 2 ^ 53" using e(1) assms(2) by (rule less_le_trans)
  have "e < 53"
    by (rule power_less_imp_less_exp [where a = "2::nat"]) (simp, fact)
  show ?thesis
    by (rule that [of "e + 1"]) (use e \<open>e < 53\<close> in simp_all)
qed

lemma nearest_product_below:
  assumes r: "r \<in> doubles" "0 \<le> r" "r < 1"
    and n: "0 < n" "n \<le> 2 ^ 53"
    and p: "nearest_double (r * real n) p"
  shows "0 \<le> p" and "p < real n"
proof -
  let ?x = "r * real n"
  have x0: "0 \<le> ?x" using r(2) by simp
  have near: "\<bar>p - ?x\<bar> \<le> \<bar>d - ?x\<bar>" if "d \<in> doubles" for d
    using p that unfolding nearest_double_def by blast
  show "0 \<le> p"
    using near [OF zero_double] x0 by linarith
  from power_two_bracket [OF n]
  obtain c :: nat where c: "c \<le> 53" "n \<le> 2 ^ c" "2 ^ c < 2 * n" .
  define u :: real where "u = 2 ^ c / 2 ^ 53"
  have u0: "0 < u" by (simp add: u_def)
  have "real n \<le> real (2 ^ c)" "real (2 ^ c) < real (2 * n)"
    using c(2,3) by (simp_all only: of_nat_le_iff of_nat_less_iff)
  then have cr: "real n \<le> 2 ^ c" "(2::real) ^ c < 2 * real n" by simp_all
  have "r \<le> 1 - 1 / 2 ^ 53" using r(1,3) by (rule double_below_one)
  then have "?x \<le> (1 - 1 / 2 ^ 53) * real n"
    by (intro mult_right_mono) simp_all
  then have gap: "real n / 2 ^ 53 \<le> real n - ?x" by (simp add: algebra_simps)
  have "u / 2 < real n / 2 ^ 53"
    using cr(2) by (simp add: u_def field_simps)
  with gap have half: "u / 2 < real n - ?x" by simp
  define d where "d = real n - u"
  define K where "K = int n * 2 ^ (53 - c) - 1"
  have deq: "d = real_of_int K * 2 ^ c / 2 ^ 53"
  proof -
    have "(2::real) ^ 53 = 2 ^ (53 - c) * 2 ^ c"
      using c(1) by (simp flip: power_add)
    then show ?thesis by (simp add: d_def u_def K_def field_simps)
  qed
  have Kb: "\<bar>K\<bar> < 2 ^ 53"
  proof -
    have "int n \<le> int (2 ^ c)" using c(2) by (simp only: of_nat_le_iff)
    then have "int n \<le> 2 ^ c" by simp
    then have "int n * 2 ^ (53 - c) \<le> 2 ^ c * 2 ^ (53 - c)"
      by (intro mult_right_mono) simp_all
    also have "\<dots> = 2 ^ 53" using c(1) by (simp flip: power_add)
    finally have "int n * 2 ^ (53 - c) \<le> 2 ^ 53" .
    moreover have "1 * 1 \<le> int n * 2 ^ (53 - c)"
      using n(1) by (intro mult_mono) simp_all
    ultimately show ?thesis by (simp add: K_def)
  qed
  have "real_of_int K * 2 ^ c / 2 ^ 53 \<in> doubles"
    using Kb c(1) by (intro doublesI) simp_all
  then have "d \<in> doubles" by (simp only: deq)
  from near [OF this] have "\<bar>p - ?x\<bar> \<le> \<bar>d - ?x\<bar>" .
  moreover have "\<bar>d - ?x\<bar> < real n - ?x"
    using half u0 by (simp add: d_def abs_if)
  ultimately show "p < real n" by linarith
qed

lemma random_index_less:
  assumes "ieee_draws mul rnd n" and "0 < i" and "i \<le> n"
  shows "nat \<lfloor>mul (rnd k) (real i)\<rfloor> < i"
proof -
  from assms have r: "rnd k \<in> doubles" "0 \<le> rnd k" "rnd k < 1"
    and p: "nearest_double (rnd k * real i) (mul (rnd k) (real i))"
    and n: "n < 2 ^ 32"
    unfolding ieee_draws_def by blast+
  have "(2::nat) ^ 32 \<le> 2 ^ 53" by (rule power_increasing) simp_all
  with n assms(3) have i: "i \<le> 2 ^ 53" by linarith
  from nearest_product_below [OF r assms(2) i p]
  show ?thesis by (simp add: floor_less_iff nat_less_iff)
qed

text \<open>
  The rounding matters. The double nearest to 0.7 is \<open>6305039478318694 / 2^53\<close>. Its
  exact product with 10 is \<open>2^-51\<close> below 7 and floors to 6; it lies half way between
  the doubles \<open>7 - 2^-50\<close> and 7, and no double is nearer, so the machine's product may
  be 7 (and is, where ties go to the even mantissa), which floors to 7.
\<close>

lemma no_double_just_below_7:
  assumes "d \<in> doubles"
  shows "d \<le> 7 - 1 / 2 ^ 50 \<or> 7 \<le> d"
proof -
  from assms obtain m :: int and a b :: nat
    where d: "d = real_of_int m * 2 ^ a / 2 ^ b" and m: "\<bar>m\<bar> < 2 ^ 53"
    unfolding doubles_def by blast
  show ?thesis
  proof (cases "b \<le> a + 50")
    case True
    define c where "c = a + 50 - b"
    have c: "a + 50 = b + c" using True by (simp add: c_def)
    have "d * 2 ^ 50 = real_of_int m * 2 ^ (a + 50) / 2 ^ b"
      by (simp add: d power_add)
    also have "\<dots> = real_of_int (m * 2 ^ c)"
      by (simp add: c power_add)
    finally have k: "d * 2 ^ 50 = real_of_int (m * 2 ^ c)" .
    have "m * 2 ^ c \<le> 7 * 2 ^ 50 - 1 \<or> 7 * 2 ^ 50 \<le> m * 2 ^ c" by linarith
    then have "real_of_int (m * 2 ^ c) \<le> real_of_int (7 * 2 ^ 50 - 1) \<or>
        real_of_int (7 * 2 ^ 50) \<le> real_of_int (m * 2 ^ c)"
      by (simp only: of_int_le_iff)
    then have "d * 2 ^ 50 \<le> 7 * 2 ^ 50 - 1 \<or> 7 * 2 ^ 50 \<le> d * 2 ^ 50"
      unfolding k by simp
    then show ?thesis by (simp add: field_simps)
  next
    case False
    define c where "c = b - (a + 51)"
    have c: "b = a + 51 + c" using False by (simp add: c_def)
    have "d = real_of_int m / (2 ^ 51 * 2 ^ c)"
      by (simp add: d c power_add)
    also have "\<dots> \<le> \<bar>real_of_int m\<bar> / (2 ^ 51 * 2 ^ c)"
      by (intro divide_right_mono) simp_all
    also have "\<dots> \<le> 2 ^ 53 / (2 ^ 51 * 2 ^ c)"
      using m by (intro divide_right_mono) simp_all
    also have "\<dots> \<le> 2 ^ 53 / 2 ^ 51"
      by (intro divide_left_mono) simp_all
    finally have "d \<le> 4" by simp
    then show ?thesis by simp
  qed
qed

lemma product_rounded_up:
  "6305039478318694 / 2 ^ 53 \<in> doubles"
  "nat \<lfloor>(6305039478318694 / 2 ^ 53 :: real) * 10\<rfloor> = 6"
  "nearest_double (6305039478318694 / 2 ^ 53 * 10) 7"
  "nat \<lfloor>7 :: real\<rfloor> = 7"
proof -
  show "6305039478318694 / 2 ^ 53 \<in> doubles"
    using doublesI [of 6305039478318694 0 53] by simp
  show "nat \<lfloor>(6305039478318694 / 2 ^ 53 :: real) * 10\<rfloor> = 6" by simp
  have 7: "7 \<in> doubles" using doublesI [of 7 0 0] by simp
  have x: "(6305039478318694 / 2 ^ 53 * 10 :: real) = 7 - 1 / 2 ^ 51" by simp
  have "\<bar>7 - (7 - 1 / 2 ^ 51)\<bar> \<le> \<bar>d - (7 - 1 / 2 ^ 51 :: real)\<bar>" if "d \<in> doubles" for d
    using no_double_just_below_7 [OF that] by auto
  with 7 show "nearest_double (6305039478318694 / 2 ^ 53 * 10) 7"
    unfolding nearest_double_def x by blast
  show "nat \<lfloor>7 :: real\<rfloor> = 7" by simp
qed

subsection \<open>Shuffle\<close>

lemma shuffle_loop_0: "shuffle_loop mul rnd k 0 cs = cs"
  by (simp add: shuffle_loop.simps)

lemma shuffle_loop_Suc:
  "shuffle_loop mul rnd k (Suc n) cs =
     shuffle_loop mul rnd (Suc k) n
       (cs[n := cs ! nat \<lfloor>mul (rnd k) (real (Suc n))\<rfloor>,
           nat \<lfloor>mul (rnd k) (real (Suc n))\<rfloor> := cs ! n])"
  by (subst shuffle_loop.simps) (simp add: Let_def)

lemma shuffle_loop_mset:
  assumes "ieee_draws mul rnd N"
  shows "n \<le> N \<Longrightarrow> n \<le> length cs \<Longrightarrow> mset (shuffle_loop mul rnd k n cs) = mset cs"
proof (induction n arbitrary: k cs)
  case 0
  show ?case by (simp add: shuffle_loop_0)
next
  case (Suc n)
  let ?r = "nat \<lfloor>mul (rnd k) (real (Suc n))\<rfloor>"
  have r: "?r < Suc n" using assms _ Suc.prems(1) by (rule random_index_less) simp
  have "mset (cs[n := cs ! ?r, ?r := cs ! n]) = mset cs"
    using Suc.prems r by (intro mset_swap) simp_all
  then show ?case using Suc by (simp add: shuffle_loop_Suc)
qed

lemma length_shuffle_loop: "length (shuffle_loop mul rnd k n cs) = length cs"
  by (induction n arbitrary: k cs) (simp_all add: shuffle_loop_0 shuffle_loop_Suc)

lemma fisher_yates_cong:
  "(\<And>i. 1 \<le> i \<Longrightarrow> i \<le> n \<Longrightarrow> j i = j' i) \<Longrightarrow> fisher_yates j n xs = fisher_yates j' n xs"
  by (induction n arbitrary: xs) simp_all

lemma shuffle_loop_fisher_yates:
  assumes "ieee_draws mul rnd N"
  shows "n \<le> N \<Longrightarrow> shuffle_loop mul rnd k n cs = fisher_yates (chosen mul rnd k n) (n - 1) cs"
proof (induction n arbitrary: k cs)
  case 0
  show ?case by (simp add: shuffle_loop_0)
next
  case (Suc n)
  let ?r = "nat \<lfloor>mul (rnd k) (real (Suc n))\<rfloor>"
  let ?cs = "cs[n := cs ! ?r, ?r := cs ! n]"
  have step: "shuffle_loop mul rnd k (Suc n) cs =
      fisher_yates (chosen mul rnd (Suc k) n) (n - 1) ?cs"
    using Suc.prems by (simp add: shuffle_loop_Suc Suc.IH)
  show ?case
  proof (cases n)
    case 0
    have "nat \<lfloor>mul (rnd k) (real (Suc 0))\<rfloor> < Suc 0"
      using assms _ _ by (rule random_index_less) (use Suc.prems 0 in simp_all)
    then have "?r = 0" using 0 by simp
    with 0 step show ?thesis by simp
  next
    case (Suc m)
    have "fisher_yates (chosen mul rnd (Suc k) n) m ?cs =
        fisher_yates (chosen mul rnd k (Suc n)) m ?cs"
      by (rule fisher_yates_cong) (simp add: chosen_def Suc Suc_diff_le)
    moreover have "chosen mul rnd k (Suc n) n = ?r" by (simp add: chosen_def)
    ultimately show ?thesis using step Suc by simp
  qed
qed

lemma chosen_le:
  assumes "ieee_draws mul rnd N" and "i < N"
  shows "chosen mul rnd k n i \<le> i"
proof -
  have "nat \<lfloor>mul (rnd (k + (n - 1 - i))) (real (i + 1))\<rfloor> < i + 1"
    using assms(1) by (rule random_index_less) (use assms(2) in simp_all)
  then show ?thesis by (simp add: chosen_def)
qed

lemma ieee_draws_exact:
  assumes "n < 2 ^ 32" and "r \<in> doubles" and "0 \<le> r" and "r < 1"
    and "\<And>i. 0 < i \<Longrightarrow> i \<le> n \<Longrightarrow> r * real i \<in> doubles"
  shows "ieee_draws (\<lambda>x y. x * y) (\<lambda>_. r) n"
  using assms by (simp add: ieee_draws_def nearest_double_self)

lemma ieee_draws_zero: "n < 2 ^ 32 \<Longrightarrow> ieee_draws (\<lambda>x y. x * y) (\<lambda>_. 0) n"
  by (rule ieee_draws_exact) (simp_all add: zero_double)

lemma ieee_draws_half: "n < 2 ^ 32 \<Longrightarrow> ieee_draws (\<lambda>x y. x * y) (\<lambda>_. 1 / 2) n"
proof (rule ieee_draws_exact)
  show "1 / 2 \<in> doubles" using doublesI [of 1 0 1] by simp
  fix i :: nat
  assume "n < 2 ^ 32" "i \<le> n"
  then have "int i < 2 ^ 32" by simp
  also have "(2::int) ^ 32 < 2 ^ 53" by simp
  finally have "\<bar>int i\<bar> < 2 ^ 53" by simp
  from doublesI [OF this, of 0 1] show "1 / 2 * real i \<in> doubles" by simp
qed simp_all

text \<open>
  C7: whatever doubles in \<open>[0, 1)\<close> \<^verbatim>\<open>Math.random\<close> returns, each product being
  rounded to a nearest double (\<open>ieee_draws\<close>), the shuffled deck has the same multiset of cards, and it is the
  deck the Fisher-Yates scheme produces: for each index \<open>i\<close> from the last down to 1,
  position \<open>i\<close> is swapped with the position the code chooses for it, which lies in
  \<open>[0, i]\<close>. (The loop of the source runs once more, for index 0, where the only choice
  is 0 and the swap changes nothing.)
\<close>

theorem Deck_shuffle_fisher_yates:
  assumes "ieee_draws mul rnd (length (cards d))"
  shows "mset (cards (Deck_shuffle mul rnd k d)) = mset (cards d) \<and>
         cards (Deck_shuffle mul rnd k d) =
           fisher_yates (chosen mul rnd k (length (cards d))) (length (cards d) - 1) (cards d) \<and>
         (\<forall>i < length (cards d). chosen mul rnd k (length (cards d)) i \<le> i)"
proof -
  have "mset (cards (Deck_shuffle mul rnd k d)) = mset (cards d)"
    using assms by (simp add: Deck_shuffle_def shuffle_loop_mset)
  moreover have "cards (Deck_shuffle mul rnd k d) =
      fisher_yates (chosen mul rnd k (length (cards d))) (length (cards d) - 1) (cards d)"
    using assms by (simp add: Deck_shuffle_def shuffle_loop_fisher_yates)
  moreover have "\<forall>i < length (cards d). chosen mul rnd k (length (cards d)) i \<le> i"
    using assms by (simp add: chosen_le)
  ultimately show ?thesis by blast
qed

theorem Deck_shuffle_fisher_yates_witness:
  "ieee_draws (\<lambda>x y. x * y) (\<lambda>_. 1 / 2) 4 \<and>
   cards (Deck_shuffle (\<lambda>x y. x * y) (\<lambda>_. 1 / 2) 0
     \<lparr>cardTypeCount = 2,
      cards = [new_Card ''a'', new_Card ''a'', new_Card ''b'', new_Card ''b'']\<rparr>)
     = [new_Card ''a'', new_Card ''b'', new_Card ''a'', new_Card ''b''] \<and>
   mset [new_Card ''a'', new_Card ''b'', new_Card ''a'', new_Card ''b'']
     = mset [new_Card ''a'', new_Card ''a'', new_Card ''b'', new_Card ''b'']"
proof -
  have h: "ieee_draws (\<lambda>x y. x * y) (\<lambda>_. 1 / 2) 4"
    by (rule ieee_draws_half) simp
  let ?d = "\<lparr>cardTypeCount = 2,
      cards = [new_Card ''a'', new_Card ''a'', new_Card ''b'', new_Card ''b'']\<rparr>"
  have l: "length (cards ?d) = 4" by simp
  have "ieee_draws (\<lambda>x y. x * y) (\<lambda>_. 1 / 2) (length (cards ?d))"
    unfolding l by (rule h)
  from Deck_shuffle_fisher_yates [OF this, of 0] h
  show ?thesis by (simp add: chosen_def)
qed

subsection \<open>Star rating\<close>

text \<open>
  C4: \<^verbatim>\<open>updateScore\<close> leaves in \<^verbatim>\<open>stars\<close> the rating of the move count: 3 below 15
  moves, 2 from 15 to 24, 1 from 25 on. The move count is not changed.
\<close>

theorem updateScore_stars:
  "stars (scoreboard (Scoreboard_updateScore s)) =
     (if moves (scoreboard s) < 15 then 3 else if moves (scoreboard s) < 25 then 2 else 1) \<and>
   moves (scoreboard (Scoreboard_updateScore s)) = moves (scoreboard s)"
  by (simp add: Scoreboard_updateScore_def Let_def)

theorem updateScore_stars_witness:
  "stars (scoreboard (Scoreboard_updateScore
     (example_page\<lparr>scoreboard := \<lparr>moves = 0, stars = 0, timeTaken = 0, timerId = None\<rparr>\<rparr>))) = 3 \<and>
   stars (scoreboard (Scoreboard_updateScore
     (example_page\<lparr>scoreboard := \<lparr>moves = 14, stars = 3, timeTaken = 0, timerId = None\<rparr>\<rparr>))) = 3 \<and>
   stars (scoreboard (Scoreboard_updateScore
     (example_page\<lparr>scoreboard := \<lparr>moves = 15, stars = 3, timeTaken = 0, timerId = None\<rparr>\<rparr>))) = 2 \<and>
   stars (scoreboard (Scoreboard_updateScore
     (example_page\<lparr>scoreboard := \<lparr>moves = 24, stars = 2, timeTaken = 0, timerId = None\<rparr>\<rparr>))) = 2 \<and>
   stars (scoreboard (Scoreboard_updateScore
     (example_page\<lparr>scoreboard := \<lparr>moves = 25, stars = 2, timeTaken = 0, timerId = None\<rparr>\<rparr>))) = 1 \<and>
   stars (scoreboard (Scoreboard_updateScore
     (example_page\<lparr>scoreboard := \<lparr>moves = 1000, stars = 1, timeTaken = 0, timerId = None\<rparr>\<rparr>))) = 1"
  using
    updateScore_stars [of "example_page\<lparr>scoreboard := \<lparr>moves = 0, stars = 0, timeTaken = 0, timerId = None\<rparr>\<rparr>"]
    updateScore_stars [of "example_page\<lparr>scoreboard := \<lparr>moves = 14, stars = 3, timeTaken = 0, timerId = None\<rparr>\<rparr>"]
    updateScore_stars [of "example_page\<lparr>scoreboard := \<lparr>moves = 15, stars = 3, timeTaken = 0, timerId = None\<rparr>\<rparr>"]
    updateScore_stars [of "example_page\<lparr>scoreboard := \<lparr>moves = 24, stars = 2, timeTaken = 0, timerId = None\<rparr>\<rparr>"]
    updateScore_stars [of "example_page\<lparr>scoreboard := \<lparr>moves = 25, stars = 2, timeTaken = 0, timerId = None\<rparr>\<rparr>"]
    updateScore_stars [of "example_page\<lparr>scoreboard := \<lparr>moves = 1000, stars = 1, timeTaken = 0, timerId = None\<rparr>\<rparr>"]
  by simp

subsection \<open>From a card to its markup and back\<close>

text \<open>
  \<^verbatim>\<open>toHtml\<close> writes \<^verbatim>\<open>fa fa-\<close> and the type, as they are, between the quotes of the
  class attribute of the \<^verbatim>\<open>i\<close> tag.
\<close>

lemma toHtml_class_attribute:
  "Card_toHtml c = ''<li class=\"card\"><i class=\"'' @ (''fa fa-'' @ ctype c) @ ''\"></i></li>''"
  by (simp add: Card_toHtml_def)

lemma takeWhile_append_stop: "\<not> P q \<Longrightarrow> takeWhile P (xs @ q # ys) = takeWhile P xs"
  by (induction xs) simp_all

text \<open>
  The page of the examples cuts the attribute at the first double quote: it hands the
  text back as written exactly when the type has no double quote.
\<close>

lemma quoted_child_class_toHtml:
  "quoted_child_class (Card_toHtml c) =
     Some (''fa fa-'' @ takeWhile (\<lambda>x. x \<noteq> CHR 0x22) (ctype c))"
  by (simp add: quoted_child_class_def Card_toHtml_def attr_value_def takeWhile_append_stop)

lemma quoted_child_class_as_written:
  "quoted_child_class (Card_toHtml c) = Some (''fa fa-'' @ ctype c) \<longleftrightarrow>
     CHR 0x22 \<notin> set (ctype c)"
  by (auto simp add: quoted_child_class_toHtml takeWhile_eq_all_conv)




subsection \<open>What each operation leaves alone\<close>

text \<open>
  Every operation of the model writes a few fields of the state. The lemmas of this
  part say, operation by operation, which fields keep their values, and what the
  operations on elements do to the classes and the handlers of each element.
\<close>

lemma addClass_frame [simp]:
  "deck (addClass cs e s) = deck s" "matches (addClass cs e s) = matches s"
  "scoreboard (addClass cs e s) = scoreboard s"
  "openCards (addClass cs e s) = openCards s" "nextElem (addClass cs e s) = nextElem s"
  "deckElem (addClass cs e s) = deckElem s" "starsElem (addClass cs e s) = starsElem s"
  "movesText (addClass cs e s) = movesText s"
  "timeTakenText (addClass cs e s) = timeTakenText s"
  "modalVisible (addClass cs e s) = modalVisible s" "now (addClass cs e s) = now s"
  "timeouts (addClass cs e s) = timeouts s" "random (addClass cs e s) = random s"
  "randomPos (addClass cs e s) = randomPos s" "mult64 (addClass cs e s) = mult64 s"
  "markupChildClass (addClass cs e s) = markupChildClass s"
  by (simp_all add: addClass_def)

lemma removeClass_frame [simp]:
  "deck (removeClass cs e s) = deck s" "matches (removeClass cs e s) = matches s"
  "scoreboard (removeClass cs e s) = scoreboard s"
  "openCards (removeClass cs e s) = openCards s"
  "nextElem (removeClass cs e s) = nextElem s"
  "deckElem (removeClass cs e s) = deckElem s"
  "starsElem (removeClass cs e s) = starsElem s"
  "movesText (removeClass cs e s) = movesText s"
  "timeTakenText (removeClass cs e s) = timeTakenText s"
  "modalVisible (removeClass cs e s) = modalVisible s" "now (removeClass cs e s) = now s"
  "timeouts (removeClass cs e s) = timeouts s" "random (removeClass cs e s) = random s"
  "randomPos (removeClass cs e s) = randomPos s" "mult64 (removeClass cs e s) = mult64 s"
  "markupChildClass (removeClass cs e s) = markupChildClass s"
  by (simp_all add: removeClass_def)

lemma off_click_frame [simp]:
  "deck (off_click es s) = deck s" "matches (off_click es s) = matches s"
  "scoreboard (off_click es s) = scoreboard s" "openCards (off_click es s) = openCards s"
  "nextElem (off_click es s) = nextElem s" "deckElem (off_click es s) = deckElem s"
  "starsElem (off_click es s) = starsElem s" "movesText (off_click es s) = movesText s"
  "timeTakenText (off_click es s) = timeTakenText s"
  "modalVisible (off_click es s) = modalVisible s" "now (off_click es s) = now s"
  "timeouts (off_click es s) = timeouts s" "random (off_click es s) = random s"
  "randomPos (off_click es s) = randomPos s" "mult64 (off_click es s) = mult64 s"
  "markupChildClass (off_click es s) = markupChildClass s"
  by (simp_all add: off_click_def)

lemma on_click_frame [simp]:
  "deck (on_click es s) = deck s" "matches (on_click es s) = matches s"
  "scoreboard (on_click es s) = scoreboard s" "openCards (on_click es s) = openCards s"
  "nextElem (on_click es s) = nextElem s" "deckElem (on_click es s) = deckElem s"
  "starsElem (on_click es s) = starsElem s" "movesText (on_click es s) = movesText s"
  "timeTakenText (on_click es s) = timeTakenText s"
  "modalVisible (on_click es s) = modalVisible s" "now (on_click es s) = now s"
  "timeouts (on_click es s) = timeouts s" "random (on_click es s) = random s"
  "randomPos (on_click es s) = randomPos s" "mult64 (on_click es s) = mult64 s"
  "markupChildClass (on_click es s) = markupChildClass s"
  by (simp_all add: on_click_def)

lemma append_card_frame [simp]:
  "deck (append_card c s) = deck s" "matches (append_card c s) = matches s"
  "scoreboard (append_card c s) = scoreboard s"
  "openCards (append_card c s) = openCards s" "starsElem (append_card c s) = starsElem s"
  "movesText (append_card c s) = movesText s"
  "timeTakenText (append_card c s) = timeTakenText s"
  "modalVisible (append_card c s) = modalVisible s" "now (append_card c s) = now s"
  "timeouts (append_card c s) = timeouts s" "random (append_card c s) = random s"
  "randomPos (append_card c s) = randomPos s" "mult64 (append_card c s) = mult64 s"
  "markupChildClass (append_card c s) = markupChildClass s"
  by (simp_all add: append_card_def)

lemma Card_lock_frame [simp]:
  "deck (Card_lock c s) = deck s" "matches (Card_lock c s) = matches s"
  "scoreboard (Card_lock c s) = scoreboard s" "openCards (Card_lock c s) = openCards s"
  "nextElem (Card_lock c s) = nextElem s" "deckElem (Card_lock c s) = deckElem s"
  "starsElem (Card_lock c s) = starsElem s" "movesText (Card_lock c s) = movesText s"
  "timeTakenText (Card_lock c s) = timeTakenText s"
  "modalVisible (Card_lock c s) = modalVisible s" "now (Card_lock c s) = now s"
  "timeouts (Card_lock c s) = timeouts s" "random (Card_lock c s) = random s"
  "randomPos (Card_lock c s) = randomPos s" "mult64 (Card_lock c s) = mult64 s"
  "markupChildClass (Card_lock c s) = markupChildClass s"
  by (simp_all add: Card_lock_def addClass_def removeClass_def split: option.split)

lemma Card_hide_frame [simp]:
  "deck (Card_hide c s) = deck s" "matches (Card_hide c s) = matches s"
  "scoreboard (Card_hide c s) = scoreboard s" "openCards (Card_hide c s) = openCards s"
  "elems (Card_hide c s) = elems s" "nextElem (Card_hide c s) = nextElem s"
  "deckElem (Card_hide c s) = deckElem s" "starsElem (Card_hide c s) = starsElem s"
  "movesText (Card_hide c s) = movesText s"
  "timeTakenText (Card_hide c s) = timeTakenText s"
  "modalVisible (Card_hide c s) = modalVisible s" "now (Card_hide c s) = now s"
  "random (Card_hide c s) = random s" "randomPos (Card_hide c s) = randomPos s"
  "mult64 (Card_hide c s) = mult64 s"
  "markupChildClass (Card_hide c s) = markupChildClass s"
  by (simp_all add: Card_hide_def)

lemma Card_show_frame [simp]:
  "deck (Card_show c s) = deck s" "matches (Card_show c s) = matches s"
  "scoreboard (Card_show c s) = scoreboard s" "openCards (Card_show c s) = openCards s"
  "elems (Card_show c s) = elems s" "nextElem (Card_show c s) = nextElem s"
  "deckElem (Card_show c s) = deckElem s" "starsElem (Card_show c s) = starsElem s"
  "movesText (Card_show c s) = movesText s"
  "timeTakenText (Card_show c s) = timeTakenText s"
  "modalVisible (Card_show c s) = modalVisible s" "now (Card_show c s) = now s"
  "random (Card_show c s) = random s" "randomPos (Card_show c s) = randomPos s"
  "mult64 (Card_show c s) = mult64 s"
  "markupChildClass (Card_show c s) = markupChildClass s"
  by (simp_all add: Card_show_def)

lemma run_timeout_frame [simp]:
  "deck (run_timeout s x) = deck s" "matches (run_timeout s x) = matches s"
  "scoreboard (run_timeout s x) = scoreboard s"
  "openCards (run_timeout s x) = openCards s" "nextElem (run_timeout s x) = nextElem s"
  "deckElem (run_timeout s x) = deckElem s" "starsElem (run_timeout s x) = starsElem s"
  "movesText (run_timeout s x) = movesText s"
  "timeTakenText (run_timeout s x) = timeTakenText s"
  "modalVisible (run_timeout s x) = modalVisible s" "now (run_timeout s x) = now s"
  "timeouts (run_timeout s x) = timeouts s" "random (run_timeout s x) = random s"
  "randomPos (run_timeout s x) = randomPos s" "mult64 (run_timeout s x) = mult64 s"
  "markupChildClass (run_timeout s x) = markupChildClass s"
  by (simp_all add: run_timeout_def addClass_def removeClass_def split: option.split timer_action.split)

lemma Scoreboard_start_frame [simp]:
  "deck (Scoreboard_start s) = deck s" "matches (Scoreboard_start s) = matches s"
  "openCards (Scoreboard_start s) = openCards s" "elems (Scoreboard_start s) = elems s"
  "nextElem (Scoreboard_start s) = nextElem s"
  "deckElem (Scoreboard_start s) = deckElem s"
  "starsElem (Scoreboard_start s) = starsElem s"
  "movesText (Scoreboard_start s) = movesText s"
  "timeTakenText (Scoreboard_start s) = timeTakenText s"
  "modalVisible (Scoreboard_start s) = modalVisible s" "now (Scoreboard_start s) = now s"
  "timeouts (Scoreboard_start s) = timeouts s" "random (Scoreboard_start s) = random s"
  "randomPos (Scoreboard_start s) = randomPos s" "mult64 (Scoreboard_start s) = mult64 s"
  "markupChildClass (Scoreboard_start s) = markupChildClass s"
  by (simp_all add: Scoreboard_start_def)

lemma Scoreboard_updateTimeTaken_frame [simp]:
  "deck (Scoreboard_updateTimeTaken s) = deck s"
  "matches (Scoreboard_updateTimeTaken s) = matches s"
  "scoreboard (Scoreboard_updateTimeTaken s) = scoreboard s"
  "openCards (Scoreboard_updateTimeTaken s) = openCards s"
  "elems (Scoreboard_updateTimeTaken s) = elems s"
  "nextElem (Scoreboard_updateTimeTaken s) = nextElem s"
  "deckElem (Scoreboard_updateTimeTaken s) = deckElem s"
  "starsElem (Scoreboard_updateTimeTaken s) = starsElem s"
  "movesText (Scoreboard_updateTimeTaken s) = movesText s"
  "modalVisible (Scoreboard_updateTimeTaken s) = modalVisible s"
  "now (Scoreboard_updateTimeTaken s) = now s"
  "timeouts (Scoreboard_updateTimeTaken s) = timeouts s"
  "random (Scoreboard_updateTimeTaken s) = random s"
  "randomPos (Scoreboard_updateTimeTaken s) = randomPos s"
  "mult64 (Scoreboard_updateTimeTaken s) = mult64 s"
  "markupChildClass (Scoreboard_updateTimeTaken s) = markupChildClass s"
  by (simp_all add: Scoreboard_updateTimeTaken_def)

lemma Scoreboard_updateScore_frame [simp]:
  "deck (Scoreboard_updateScore s) = deck s"
  "matches (Scoreboard_updateScore s) = matches s"
  "openCards (Scoreboard_updateScore s) = openCards s"
  "elems (Scoreboard_updateScore s) = elems s"
  "nextElem (Scoreboard_updateScore s) = nextElem s"
  "deckElem (Scoreboard_updateScore s) = deckElem s"
  "timeTakenText (Scoreboard_updateScore s) = timeTakenText s"
  "modalVisible (Scoreboard_updateScore s) = modalVisible s"
  "now (Scoreboard_updateScore s) = now s"
  "timeouts (Scoreboard_updateScore s) = timeouts s"
  "random (Scoreboard_updateScore s) = random s"
  "randomPos (Scoreboard_updateScore s) = randomPos s"
  "mult64 (Scoreboard_updateScore s) = mult64 s"
  "markupChildClass (Scoreboard_updateScore s) = markupChildClass s"
  by (simp_all add: Scoreboard_updateScore_def Let_def)

lemma Scoreboard_showFinalScores_frame [simp]:
  "deck (Scoreboard_showFinalScores s) = deck s"
  "matches (Scoreboard_showFinalScores s) = matches s"
  "openCards (Scoreboard_showFinalScores s) = openCards s"
  "elems (Scoreboard_showFinalScores s) = elems s"
  "nextElem (Scoreboard_showFinalScores s) = nextElem s"
  "deckElem (Scoreboard_showFinalScores s) = deckElem s"
  "starsElem (Scoreboard_showFinalScores s) = starsElem s"
  "movesText (Scoreboard_showFinalScores s) = movesText s"
  "timeTakenText (Scoreboard_showFinalScores s) = timeTakenText s"
  "now (Scoreboard_showFinalScores s) = now s"
  "timeouts (Scoreboard_showFinalScores s) = timeouts s"
  "random (Scoreboard_showFinalScores s) = random s"
  "randomPos (Scoreboard_showFinalScores s) = randomPos s"
  "mult64 (Scoreboard_showFinalScores s) = mult64 s"
  "markupChildClass (Scoreboard_showFinalScores s) = markupChildClass s"
  by (simp_all add: Scoreboard_showFinalScores_def)

lemma Scoreboard_closeFinalScores_frame [simp]:
  "deck (Scoreboard_closeFinalScores s) = deck s"
  "matches (Scoreboard_closeFinalScores s) = matches s"
  "scoreboard (Scoreboard_closeFinalScores s) = scoreboard s"
  "openCards (Scoreboard_closeFinalScores s) = openCards s"
  "elems (Scoreboard_closeFinalScores s) = elems s"
  "nextElem (Scoreboard_closeFinalScores s) = nextElem s"
  "deckElem (Scoreboard_closeFinalScores s) = deckElem s"
  "starsElem (Scoreboard_closeFinalScores s) = starsElem s"
  "movesText (Scoreboard_closeFinalScores s) = movesText s"
  "timeTakenText (Scoreboard_closeFinalScores s) = timeTakenText s"
  "now (Scoreboard_closeFinalScores s) = now s"
  "timeouts (Scoreboard_closeFinalScores s) = timeouts s"
  "random (Scoreboard_closeFinalScores s) = random s"
  "randomPos (Scoreboard_closeFinalScores s) = randomPos s"
  "mult64 (Scoreboard_closeFinalScores s) = mult64 s"
  "markupChildClass (Scoreboard_closeFinalScores s) = markupChildClass s"
  by (simp_all add: Scoreboard_closeFinalScores_def)

lemma addClass_elems [simp]:
  "classes (elems (addClass cs e s) x) =
     (if x = e then classes (elems s x) \<union> set cs else classes (elems s x))"
  "childClass (elems (addClass cs e s) x) = childClass (elems s x)"
  "handlers (elems (addClass cs e s) x) = handlers (elems s x)"
  by (simp_all add: addClass_def)

lemma removeClass_elems [simp]:
  "classes (elems (removeClass cs e s) x) =
     (if x = e then classes (elems s x) - set cs else classes (elems s x))"
  "childClass (elems (removeClass cs e s) x) = childClass (elems s x)"
  "handlers (elems (removeClass cs e s) x) = handlers (elems s x)"
  by (simp_all add: removeClass_def)

lemma off_click_elems [simp]:
  "classes (elems (off_click es s) x) = classes (elems s x)"
  "childClass (elems (off_click es s) x) = childClass (elems s x)"
  "handlers (elems (off_click es s) x) = (if x \<in> set es then 0 else handlers (elems s x))"
  by (simp_all add: off_click_def)

lemma on_click_elems [simp]:
  "classes (elems (on_click es s) x) = classes (elems s x)"
  "childClass (elems (on_click es s) x) = childClass (elems s x)"
  "handlers (elems (on_click es s) x) =
     (if x \<in> set es then handlers (elems s x) + 1 else handlers (elems s x))"
  by (simp_all add: on_click_def)

lemma Card_lock_elems [simp]:
  "classes (elems (Card_lock c s) x) =
     (if elem c = Some x then insert ''match'' (classes (elems s x)) - {''open'', ''show''}
      else classes (elems s x))"
  "childClass (elems (Card_lock c s) x) = childClass (elems s x)"
  "handlers (elems (Card_lock c s) x) = handlers (elems s x)"
  by (auto simp add: Card_lock_def split: option.split)

lemma run_timeout_elems [simp]:
  "childClass (elems (run_timeout s t) x) = childClass (elems s x)"
  "handlers (elems (run_timeout s t) x) = handlers (elems s x)"
  "(''card'' \<in> classes (elems (run_timeout s t) x)) = (''card'' \<in> classes (elems s x))"
  "(''match'' \<in> classes (elems (run_timeout s t) x)) = (''match'' \<in> classes (elems s x))"
  by (auto simp add: run_timeout_def split: option.split timer_action.split)

lemma sel_card_cong:
  "deckElem s' = deckElem s \<Longrightarrow>
   (\<And>x. (''card'' \<in> classes (elems s' x)) = (''card'' \<in> classes (elems s x))) \<Longrightarrow>
   sel_card s' = sel_card s"
  by (simp add: sel_card_def)

subsection \<open>The parts of a click\<close>

lemma Scoreboard_start_scoreboard [simp]:
  "moves (scoreboard (Scoreboard_start s)) = moves (scoreboard s)"
  "stars (scoreboard (Scoreboard_start s)) = stars (scoreboard s)"
  "timeTaken (scoreboard (Scoreboard_start s)) = timeTaken (scoreboard s)"
  "timerId (scoreboard (Scoreboard_start s)) =
     (case timerId (scoreboard s) of None \<Rightarrow> Some (now s) | Some st \<Rightarrow> Some st)"
  by (simp_all add: Scoreboard_start_def split: option.split)

lemma Scoreboard_updateScore_scoreboard [simp]:
  "moves (scoreboard (Scoreboard_updateScore s)) = moves (scoreboard s)"
  "timeTaken (scoreboard (Scoreboard_updateScore s)) = timeTaken (scoreboard s)"
  "timerId (scoreboard (Scoreboard_updateScore s)) = timerId (scoreboard s)"
  by (simp_all add: Scoreboard_updateScore_def Let_def)

lemma Scoreboard_incrementMoves_frame [simp]:
  "deck (Scoreboard_incrementMoves s) = deck s"
  "matches (Scoreboard_incrementMoves s) = matches s"
  "openCards (Scoreboard_incrementMoves s) = openCards s"
  "elems (Scoreboard_incrementMoves s) = elems s"
  "nextElem (Scoreboard_incrementMoves s) = nextElem s"
  "deckElem (Scoreboard_incrementMoves s) = deckElem s"
  "timeTakenText (Scoreboard_incrementMoves s) = timeTakenText s"
  "modalVisible (Scoreboard_incrementMoves s) = modalVisible s"
  "now (Scoreboard_incrementMoves s) = now s"
  "timeouts (Scoreboard_incrementMoves s) = timeouts s"
  "random (Scoreboard_incrementMoves s) = random s"
  "mult64 (Scoreboard_incrementMoves s) = mult64 s"
  "markupChildClass (Scoreboard_incrementMoves s) = markupChildClass s"
  "randomPos (Scoreboard_incrementMoves s) = randomPos s"
  "moves (scoreboard (Scoreboard_incrementMoves s)) = moves (scoreboard s) + 1"
  "timeTaken (scoreboard (Scoreboard_incrementMoves s)) = timeTaken (scoreboard s)"
  "timerId (scoreboard (Scoreboard_incrementMoves s)) = timerId (scoreboard s)"
  by (simp_all add: Scoreboard_incrementMoves_def)

lemma Scoreboard_showFinalScores_scoreboard [simp]:
  "moves (scoreboard (Scoreboard_showFinalScores s)) = moves (scoreboard s)"
  "stars (scoreboard (Scoreboard_showFinalScores s)) = stars (scoreboard s)"
  "timeTaken (scoreboard (Scoreboard_showFinalScores s)) = timeTaken (scoreboard s)"
  "timerId (scoreboard (Scoreboard_showFinalScores s)) = None"
  "modalVisible (Scoreboard_showFinalScores s) = (\<not> modalVisible s)"
  by (simp_all add: Scoreboard_showFinalScores_def)

lemma Game_openCard_Some:
  assumes "Card_determineType (elems s cardElem) = Some t"
  shows "Game_openCard cardElem s =
    Some (s\<lparr>timeouts := timeouts s @
                [(now s + 50, AddOpenShow, \<lparr>ctype = t, elem = Some cardElem\<rparr>)],
            openCards := openCards s @ [\<lparr>ctype = t, elem = Some cardElem\<rparr>]\<rparr>)"
  using assms by (simp add: Game_openCard_def Card_fromElem_def Card_show_def)

lemma Game_hideUnmatched_two:
  assumes "openCards s = [c0, c1]"
  shows "Game_hideUnmatched s =
    s\<lparr>timeouts := timeouts s @
         [(now s + 800, RemoveOpenShow, c0), (now s + 800, RemoveOpenShow, c1)]\<rparr>"
  using assms by (simp add: Game_hideUnmatched_def Card_hide_def)

text \<open>\<^verbatim>\<open>lockMatched\<close> with two open cards, field by field.\<close>

lemma Game_lockMatched_frame:
  assumes "openCards s = c0 # c1 # rest"
  shows "deck (Game_lockMatched s) = deck s"
    and "matches (Game_lockMatched s) = matches s + 1"
    and "openCards (Game_lockMatched s) = openCards s"
    and "nextElem (Game_lockMatched s) = nextElem s"
    and "deckElem (Game_lockMatched s) = deckElem s"
    and "now (Game_lockMatched s) = now s"
    and "timeouts (Game_lockMatched s) = timeouts s"
    and "random (Game_lockMatched s) = random s"
    and "randomPos (Game_lockMatched s) = randomPos s"
    and "moves (scoreboard (Game_lockMatched s)) = moves (scoreboard s)"
    and "modalVisible (Game_lockMatched s) =
           (if matches s + 1 \<ge> cardTypeCount (deck s) then \<not> modalVisible s else modalVisible s)"
    and "timerId (scoreboard (Game_lockMatched s)) =
           (if matches s + 1 \<ge> cardTypeCount (deck s) then None else timerId (scoreboard s))"
  using assms
  by (simp_all add: Game_lockMatched_def Let_def Game_finish_def Deck_getCardTypeCount_def)

lemma Game_lockMatched_classes:
  assumes "openCards s = c0 # c1 # rest"
  shows "classes (elems (Game_lockMatched s) x) =
           (if elem c0 = Some x \<or> elem c1 = Some x
            then insert ''match'' (classes (elems s x)) - {''open'', ''show''}
            else classes (elems s x))"
  using assms
  by (auto simp add: Game_lockMatched_def Let_def Game_finish_def Scoreboard_showFinalScores_def)

subsection \<open>Elapsed time\<close>

text \<open>
  The timeouts that fall due run sorted by due time. A timeout that is due no earlier
  than all the others, and was set last, runs last.
\<close>

lemma insort_key_snoc:
  "f y \<le> f x \<Longrightarrow> insort_key f y (zs @ [x]) = insort_key f y zs @ [x]"
  by (induction zs) simp_all

lemma sort_key_snoc:
  "\<forall>y \<in> set ys. f y \<le> f x \<Longrightarrow> sort_key f (ys @ [x]) = sort_key f ys @ [x]"
  by (induction ys) (simp_all add: insort_key_snoc)

lemma foldl_run_timeout_frame [simp]:
  "deck (foldl run_timeout s ts) = deck s" "matches (foldl run_timeout s ts) = matches s"
  "scoreboard (foldl run_timeout s ts) = scoreboard s"
  "openCards (foldl run_timeout s ts) = openCards s"
  "nextElem (foldl run_timeout s ts) = nextElem s"
  "deckElem (foldl run_timeout s ts) = deckElem s"
  "starsElem (foldl run_timeout s ts) = starsElem s"
  "movesText (foldl run_timeout s ts) = movesText s"
  "timeTakenText (foldl run_timeout s ts) = timeTakenText s"
  "modalVisible (foldl run_timeout s ts) = modalVisible s"
  "now (foldl run_timeout s ts) = now s" "timeouts (foldl run_timeout s ts) = timeouts s"
  "random (foldl run_timeout s ts) = random s"
  "mult64 (foldl run_timeout s ts) = mult64 s"
  "markupChildClass (foldl run_timeout s ts) = markupChildClass s" "randomPos (foldl run_timeout s ts) = randomPos s"
  by (induction ts arbitrary: s) simp_all

lemma foldl_run_timeout_elems [simp]:
  "childClass (elems (foldl run_timeout s ts) x) = childClass (elems s x)"
  "handlers (elems (foldl run_timeout s ts) x) = handlers (elems s x)"
  "(''card'' \<in> classes (elems (foldl run_timeout s ts) x)) = (''card'' \<in> classes (elems s x))"
  "(''match'' \<in> classes (elems (foldl run_timeout s ts) x)) = (''match'' \<in> classes (elems s x))"
  by (induction ts arbitrary: s) simp_all

lemma interval_ticks_frame [simp]:
  "deck (interval_ticks a b s) = deck s" "matches (interval_ticks a b s) = matches s"
  "openCards (interval_ticks a b s) = openCards s" "elems (interval_ticks a b s) = elems s"
  "nextElem (interval_ticks a b s) = nextElem s" "deckElem (interval_ticks a b s) = deckElem s"
  "starsElem (interval_ticks a b s) = starsElem s" "movesText (interval_ticks a b s) = movesText s"
  "modalVisible (interval_ticks a b s) = modalVisible s" "now (interval_ticks a b s) = now s"
  "timeouts (interval_ticks a b s) = timeouts s" "random (interval_ticks a b s) = random s"
  "mult64 (interval_ticks a b s) = mult64 s"
  "markupChildClass (interval_ticks a b s) = markupChildClass s"
  "randomPos (interval_ticks a b s) = randomPos s"
  "moves (scoreboard (interval_ticks a b s)) = moves (scoreboard s)"
  "stars (scoreboard (interval_ticks a b s)) = stars (scoreboard s)"
  "timerId (scoreboard (interval_ticks a b s)) = timerId (scoreboard s)"
  by (simp_all add: interval_ticks_def split: option.split)

lemma elapse_frame [simp]:
  "deck (elapse d s) = deck s" "matches (elapse d s) = matches s"
  "openCards (elapse d s) = openCards s"
  "nextElem (elapse d s) = nextElem s" "deckElem (elapse d s) = deckElem s"
  "starsElem (elapse d s) = starsElem s" "movesText (elapse d s) = movesText s"
  "modalVisible (elapse d s) = modalVisible s" "now (elapse d s) = now s + d"
  "timeouts (elapse d s) = filter (\<lambda>x. \<not> fst x \<le> now s + d) (timeouts s)"
  "random (elapse d s) = random s"
  "mult64 (elapse d s) = mult64 s"
  "markupChildClass (elapse d s) = markupChildClass s" "randomPos (elapse d s) = randomPos s"
  "moves (scoreboard (elapse d s)) = moves (scoreboard s)"
  "stars (scoreboard (elapse d s)) = stars (scoreboard s)"
  "timerId (scoreboard (elapse d s)) = timerId (scoreboard s)"
  by (simp_all add: elapse_def Let_def)

lemma elapse_elems:
  "elems (elapse d s) =
     elems (foldl run_timeout (s\<lparr>now := now s + d,
                                 timeouts := filter (\<lambda>x. \<not> fst x \<le> now s + d) (timeouts s)\<rparr>)
             (sort_key fst (filter (\<lambda>x. fst x \<le> now s + d) (timeouts s))))"
  by (simp add: elapse_def Let_def)

lemma elapse_elems_simps [simp]:
  "childClass (elems (elapse d s) x) = childClass (elems s x)"
  "handlers (elems (elapse d s) x) = handlers (elems s x)"
  "(''card'' \<in> classes (elems (elapse d s) x)) = (''card'' \<in> classes (elems s x))"
  "(''match'' \<in> classes (elems (elapse d s) x)) = (''match'' \<in> classes (elems s x))"
  by (simp_all add: elapse_elems)

lemma run_timeout_hide:
  "classes (elems (run_timeout s (d, RemoveOpenShow, c)) x) =
     (if elem c = Some x then classes (elems s x) - {''open'', ''show''} else classes (elems s x))"
  by (auto simp add: run_timeout_def split: option.split)

text \<open>When the last two timeouts to run are the hides of two cards, both end hidden.\<close>

lemma elapse_hidden:
  assumes "timeouts s = ts @ [(t, RemoveOpenShow, c0), (t, RemoveOpenShow, c1)]"
    and "\<forall>x \<in> set ts. fst x \<le> t" and "t \<le> now s + d"
  shows "elem c0 = Some e0 \<Longrightarrow> classes (elems (elapse d s) e0) \<inter> {''open'', ''show''} = {}"
    and "elem c1 = Some e1 \<Longrightarrow> classes (elems (elapse d s) e1) \<inter> {''open'', ''show''} = {}"
proof -
  let ?h0 = "(t, RemoveOpenShow, c0)" and ?h1 = "(t, RemoveOpenShow, c1)"
  have all: "filter (\<lambda>x. fst x \<le> now s + d) (timeouts s) = timeouts s"
    using assms(1,2,3) by (auto simp add: filter_id_conv)
  have "sort_key fst (timeouts s) = sort_key fst ((ts @ [?h0]) @ [?h1])"
    using assms(1) by simp
  also have "\<dots> = sort_key fst (ts @ [?h0]) @ [?h1]"
    using assms(2) by (intro sort_key_snoc) auto
  also have "sort_key fst (ts @ [?h0]) = sort_key fst ts @ [?h0]"
    using assms(2) by (intro sort_key_snoc) auto
  finally have sorted: "sort_key fst (timeouts s) = sort_key fst ts @ [?h0, ?h1]" by simp
  show "classes (elems (elapse d s) e0) \<inter> {''open'', ''show''} = {}" if "elem c0 = Some e0"
    using that by (auto simp add: elapse_elems all sorted run_timeout_hide)
  show "classes (elems (elapse d s) e1) \<inter> {''open'', ''show''} = {}" if "elem c1 = Some e1"
    using that by (auto simp add: elapse_elems all sorted run_timeout_hide)
qed

subsection \<open>Deck.display and restart\<close>

lemma append_loop_frame [simp]:
  "deck (foldl (\<lambda>s' c. append_card c s') s cs) = deck s"
  "matches (foldl (\<lambda>s' c. append_card c s') s cs) = matches s"
  "scoreboard (foldl (\<lambda>s' c. append_card c s') s cs) = scoreboard s"
  "openCards (foldl (\<lambda>s' c. append_card c s') s cs) = openCards s"
  "starsElem (foldl (\<lambda>s' c. append_card c s') s cs) = starsElem s"
  "movesText (foldl (\<lambda>s' c. append_card c s') s cs) = movesText s"
  "timeTakenText (foldl (\<lambda>s' c. append_card c s') s cs) = timeTakenText s"
  "modalVisible (foldl (\<lambda>s' c. append_card c s') s cs) = modalVisible s"
  "now (foldl (\<lambda>s' c. append_card c s') s cs) = now s"
  "timeouts (foldl (\<lambda>s' c. append_card c s') s cs) = timeouts s"
  "random (foldl (\<lambda>s' c. append_card c s') s cs) = random s"
  "mult64 (foldl (\<lambda>s' c. append_card c s') s cs) = mult64 s"
  "markupChildClass (foldl (\<lambda>s' c. append_card c s') s cs) = markupChildClass s"
  "randomPos (foldl (\<lambda>s' c. append_card c s') s cs) = randomPos s"
  by (induction cs arbitrary: s) simp_all

lemma append_loop_nextElem [simp]:
  "nextElem (foldl (\<lambda>s' c. append_card c s') s cs) = nextElem s + length cs"
  by (induction cs arbitrary: s) (simp_all add: append_card_def)

lemma append_card_fields [simp]:
  "nextElem (append_card c s) = Suc (nextElem s)"
  "deckElem (append_card c s) = deckElem s @ [nextElem s]"
  "elems (append_card c s) =
     (elems s)(nextElem s :=
        \<lparr>classes = {''card''}, childClass = markupChildClass s (Card_toHtml c),
         handlers = 0\<rparr>)"
  by (simp_all add: append_card_def)

lemma upt_add_Suc: "[n ..< n + Suc k] = n # [Suc n ..< Suc n + k]"
  by (simp add: upt_conv_Cons del: upt_Suc)

lemma append_loop_deckElem [simp]:
  "deckElem (foldl (\<lambda>s' c. append_card c s') s cs) =
     deckElem s @ [nextElem s ..< nextElem s + length cs]"
proof (induction cs arbitrary: s)
  case Nil
  show ?case by simp
next
  case (Cons c cs)
  show ?case
    using upt_add_Suc [of "nextElem s" "length cs"] by (simp add: Cons.IH del: upt_Suc)
qed

lemma append_loop_elems:
  "elems (foldl (\<lambda>s' c. append_card c s') s cs) x =
     (if nextElem s \<le> x \<and> x < nextElem s + length cs
      then \<lparr>classes = {''card''},
            childClass = markupChildClass s (Card_toHtml (cs ! (x - nextElem s))),
            handlers = 0\<rparr>
      else elems s x)"
proof (induction cs arbitrary: s)
  case Nil
  show ?case by auto
next
  case (Cons c cs)
  show ?case
    by (auto simp add: Cons.IH nth_Cons' Suc_diff_le)
qed

lemma Deck_display_frame [simp]:
  "matches (Deck_display s) = matches s" "scoreboard (Deck_display s) = scoreboard s"
  "openCards (Deck_display s) = openCards s" "starsElem (Deck_display s) = starsElem s"
  "movesText (Deck_display s) = movesText s" "timeTakenText (Deck_display s) = timeTakenText s"
  "modalVisible (Deck_display s) = modalVisible s" "now (Deck_display s) = now s"
  "timeouts (Deck_display s) = timeouts s" "random (Deck_display s) = random s"
  "mult64 (Deck_display s) = mult64 s"
  "markupChildClass (Deck_display s) = markupChildClass s"
  by (simp_all add: Deck_display_def Let_def)

lemma Deck_display_fields:
  "deck (Deck_display s) = Deck_shuffle (mult64 s) (random s) (randomPos s) (deck s)"
  "randomPos (Deck_display s) = randomPos s + length (cards (deck s))"
  "nextElem (Deck_display s) = nextElem s + length (cards (deck s))"
  "deckElem (Deck_display s) = [nextElem s ..< nextElem s + length (cards (deck s))]"
  by (simp_all add: Deck_display_def Let_def Deck_shuffle_def length_shuffle_loop)

lemma Deck_display_elems:
  "elems (Deck_display s) x =
     (if nextElem s \<le> x \<and> x < nextElem s + length (cards (deck s))
      then \<lparr>classes = {''card''},
            childClass =
              markupChildClass s (Card_toHtml (cards (deck (Deck_display s)) ! (x - nextElem s))),
            handlers = 0\<rparr>
      else elems s x)"
  by (simp add: Deck_display_def Let_def append_loop_elems Deck_shuffle_def length_shuffle_loop)

lemma sel_card_Deck_display: "sel_card (Deck_display s) = deckElem (Deck_display s)"
  by (simp add: sel_card_def Deck_display_fields Deck_display_elems)

lemma Scoreboard_reset_frame [simp]:
  "deck (Scoreboard_reset s) = deck s" "matches (Scoreboard_reset s) = matches s"
  "openCards (Scoreboard_reset s) = openCards s" "elems (Scoreboard_reset s) = elems s"
  "nextElem (Scoreboard_reset s) = nextElem s" "deckElem (Scoreboard_reset s) = deckElem s"
  "modalVisible (Scoreboard_reset s) = modalVisible s" "now (Scoreboard_reset s) = now s"
  "timeouts (Scoreboard_reset s) = timeouts s" "random (Scoreboard_reset s) = random s"
  "mult64 (Scoreboard_reset s) = mult64 s"
  "markupChildClass (Scoreboard_reset s) = markupChildClass s"
  "randomPos (Scoreboard_reset s) = randomPos s"
  "scoreboard (Scoreboard_reset s) = \<lparr>moves = 0, stars = 3, timeTaken = 0, timerId = None\<rparr>"
  "starsElem (Scoreboard_reset s) = 3" "movesText (Scoreboard_reset s) = Some 0"
  "timeTakenText (Scoreboard_reset s) = Some 0"
  by (simp_all add: Scoreboard_reset_def Scoreboard_updateScore_def
      Scoreboard_updateTimeTaken_def Let_def)

text \<open>\<^verbatim>\<open>handleRestart\<close>, field by field.\<close>

lemma Game_handleRestart_frame [simp]:
  "matches (Game_handleRestart s) = 0" "openCards (Game_handleRestart s) = []"
  "scoreboard (Game_handleRestart s) = \<lparr>moves = 0, stars = 3, timeTaken = 0, timerId = None\<rparr>"
  "starsElem (Game_handleRestart s) = 3" "movesText (Game_handleRestart s) = Some 0"
  "timeTakenText (Game_handleRestart s) = Some 0"
  "modalVisible (Game_handleRestart s) = modalVisible s" "now (Game_handleRestart s) = now s"
  "timeouts (Game_handleRestart s) = timeouts s" "random (Game_handleRestart s) = random s"
  "mult64 (Game_handleRestart s) = mult64 s"
  "markupChildClass (Game_handleRestart s) = markupChildClass s"
  by (simp_all add: Game_handleRestart_def Let_def)

lemma Game_handleRestart_fields:
  "deck (Game_handleRestart s) =
     Deck_shuffle (mult64 s) (random s) (randomPos s) (deck s)"
  "randomPos (Game_handleRestart s) = randomPos s + length (cards (deck s))"
  "nextElem (Game_handleRestart s) = nextElem s + length (cards (deck s))"
  "deckElem (Game_handleRestart s) = [nextElem s ..< nextElem s + length (cards (deck s))]"
  by (simp_all add: Game_handleRestart_def Let_def Deck_display_fields)

lemma Game_handleRestart_elems:
  assumes "x \<in> set (deckElem (Game_handleRestart s))"
  shows "elems (Game_handleRestart s) x =
     \<lparr>classes = {''card''},
      childClass =
        markupChildClass s (Card_toHtml (cards (deck (Game_handleRestart s)) ! (x - nextElem s))),
      handlers = 1\<rparr>"
proof -
  let ?s4 = "(Scoreboard_reset (off_click (sel_card s) s))\<lparr>matches := 0, openCards := []\<rparr>"
  let ?s5 = "Deck_display ?s4"
  have r: "Game_handleRestart s = on_click (deckElem ?s5) ?s5"
    by (simp add: Game_handleRestart_def Let_def sel_card_Deck_display)
  have x: "x \<in> set (deckElem ?s5)" using assms by (simp add: r)
  then have range: "nextElem s \<le> x \<and> x < nextElem s + length (cards (deck s))"
    by (simp add: Deck_display_fields)
  have "elems ?s5 x =
      \<lparr>classes = {''card''},
       childClass = markupChildClass s (Card_toHtml (cards (deck ?s5) ! (x - nextElem s))),
       handlers = 0\<rparr>"
    using range by (simp add: Deck_display_elems)
  then show ?thesis using x
    by (simp add: r on_click_def)
qed

subsection \<open>What a click changes, for every state\<close>

lemma hide_loop_frame [simp]:
  "deck (foldl (\<lambda>s' c. Card_hide c s') s cs) = deck s"
  "matches (foldl (\<lambda>s' c. Card_hide c s') s cs) = matches s"
  "scoreboard (foldl (\<lambda>s' c. Card_hide c s') s cs) = scoreboard s"
  "openCards (foldl (\<lambda>s' c. Card_hide c s') s cs) = openCards s"
  "elems (foldl (\<lambda>s' c. Card_hide c s') s cs) = elems s"
  "nextElem (foldl (\<lambda>s' c. Card_hide c s') s cs) = nextElem s"
  "deckElem (foldl (\<lambda>s' c. Card_hide c s') s cs) = deckElem s"
  "starsElem (foldl (\<lambda>s' c. Card_hide c s') s cs) = starsElem s"
  "movesText (foldl (\<lambda>s' c. Card_hide c s') s cs) = movesText s"
  "timeTakenText (foldl (\<lambda>s' c. Card_hide c s') s cs) = timeTakenText s"
  "modalVisible (foldl (\<lambda>s' c. Card_hide c s') s cs) = modalVisible s"
  "now (foldl (\<lambda>s' c. Card_hide c s') s cs) = now s"
  "random (foldl (\<lambda>s' c. Card_hide c s') s cs) = random s"
  "mult64 (foldl (\<lambda>s' c. Card_hide c s') s cs) = mult64 s"
  "markupChildClass (foldl (\<lambda>s' c. Card_hide c s') s cs) = markupChildClass s"
  "randomPos (foldl (\<lambda>s' c. Card_hide c s') s cs) = randomPos s"
  by (induction cs arbitrary: s) (simp_all add: Card_hide_def)

lemma hide_loop_timeouts:
  "timeouts (foldl (\<lambda>s' c. Card_hide c s') s cs) =
     timeouts s @ map (\<lambda>c. (now s + 800, RemoveOpenShow, c)) cs"
proof (induction cs arbitrary: s)
  case Nil
  show ?case by simp
next
  case (Cons c cs)
  have "now (Card_hide c s) = now s" by simp
  then show ?case by (simp add: Cons.IH) (simp add: Card_hide_def)
qed

lemma Game_hideUnmatched_frame [simp]:
  "deck (Game_hideUnmatched s) = deck s" "matches (Game_hideUnmatched s) = matches s"
  "scoreboard (Game_hideUnmatched s) = scoreboard s"
  "openCards (Game_hideUnmatched s) = openCards s" "elems (Game_hideUnmatched s) = elems s"
  "nextElem (Game_hideUnmatched s) = nextElem s" "deckElem (Game_hideUnmatched s) = deckElem s"
  "starsElem (Game_hideUnmatched s) = starsElem s" "movesText (Game_hideUnmatched s) = movesText s"
  "timeTakenText (Game_hideUnmatched s) = timeTakenText s"
  "modalVisible (Game_hideUnmatched s) = modalVisible s" "now (Game_hideUnmatched s) = now s"
  "random (Game_hideUnmatched s) = random s"
  "mult64 (Game_hideUnmatched s) = mult64 s"
  "markupChildClass (Game_hideUnmatched s) = markupChildClass s" "randomPos (Game_hideUnmatched s) = randomPos s"
  by (simp_all add: Game_hideUnmatched_def)

lemma Game_hideUnmatched_timeouts:
  "timeouts (Game_hideUnmatched s) =
     timeouts s @ (if length (openCards s) > 1
                   then map (\<lambda>c. (now s + 800, RemoveOpenShow, c)) (openCards s) else [])"
  by (simp add: Game_hideUnmatched_def hide_loop_timeouts)

lemma Game_lockMatched_frame_all [simp]:
  "deck (Game_lockMatched s) = deck s" "openCards (Game_lockMatched s) = openCards s"
  "nextElem (Game_lockMatched s) = nextElem s" "deckElem (Game_lockMatched s) = deckElem s"
  "now (Game_lockMatched s) = now s" "timeouts (Game_lockMatched s) = timeouts s"
  "random (Game_lockMatched s) = random s"
  "mult64 (Game_lockMatched s) = mult64 s"
  "markupChildClass (Game_lockMatched s) = markupChildClass s" "randomPos (Game_lockMatched s) = randomPos s"
  "matches (Game_lockMatched s) = matches s + 1"
  by (simp_all add: Game_lockMatched_def Let_def Game_finish_def split: list.split)

lemma Game_lockMatched_card [simp]:
  "(''card'' \<in> classes (elems (Game_lockMatched s) x)) = (''card'' \<in> classes (elems s x))"
  by (simp add: Game_lockMatched_def Let_def Game_finish_def Scoreboard_showFinalScores_def
      split: list.split)

lemma sel_card_Game_lockMatched [simp]: "sel_card (Game_lockMatched s) = sel_card s"
  by (rule sel_card_cong) simp_all

lemma sel_card_simps [simp]:
  "sel_card (s\<lparr>matches := m\<rparr>) = sel_card s"
  "sel_card (off_click es s) = sel_card s"
  "sel_card (on_click es s) = sel_card s"
  "sel_card (Card_lock c s) = sel_card s"
  by (simp_all add: sel_card_def)

lemma Game_lockMatched_handlers:
  assumes "openCards s = c0 # c1 # rest"
  shows "handlers (elems (Game_lockMatched s) x) =
           (if x \<in> set (sel_card s)
            then (if ''match'' \<in> classes (elems (Game_lockMatched s) x) then 0 else 1)
            else handlers (elems s x))"
  using assms
  by (simp add: Game_lockMatched_def Let_def Game_finish_def Scoreboard_showFinalScores_def
      not_match_def)

lemma openCards_resolve:
  "openCards (resolve s) = (if length (openCards s) > 1 then [] else openCards s)"
  by (simp add: resolve_def Let_def)

lemma resolve_frame [simp]:
  "deck (resolve s) = deck s" "nextElem (resolve s) = nextElem s"
  "deckElem (resolve s) = deckElem s" "now (resolve s) = now s"
  "random (resolve s) = random s"
  "mult64 (resolve s) = mult64 s"
  "markupChildClass (resolve s) = markupChildClass s" "randomPos (resolve s) = randomPos s"
  "(''card'' \<in> classes (elems (resolve s) x)) = (''card'' \<in> classes (elems s x))"
  by (simp_all add: resolve_def Let_def)

lemma resolve_timeouts:
  "timeouts (resolve s) =
     timeouts s @ (if length (openCards s) > 1 \<and> \<not> Game_isMatched s
                   then map (\<lambda>c. (now s + 800, RemoveOpenShow, c)) (openCards s) else [])"
  by (simp add: resolve_def Let_def Game_hideUnmatched_timeouts)

lemma Game_openCard_None:
  "Card_determineType (elems s cardElem) = None \<Longrightarrow> Game_openCard cardElem s = None"
  by (simp add: Game_openCard_def Card_fromElem_def)

text \<open>The pending cards after a click, for every state and every target.\<close>

lemma handleCardClick_openCards:
  "openCards (Game_handleCardClick e s) =
     (if hasClass ''open'' e s then openCards s
      else case Card_determineType (elems s e) of
             None \<Rightarrow> openCards s
           | Some t \<Rightarrow> if openCards s = [] then [\<lparr>ctype = t, elem = Some e\<rparr>] else [])"
proof (cases "Card_determineType (elems s e)")
  case None
  then show ?thesis
    by (simp add: Game_handleCardClick_def Let_def Game_openCard_None)
next
  case (Some t)
  then have "Game_openCard e (Scoreboard_start s) =
      Some ((Scoreboard_start s)\<lparr>timeouts := timeouts (Scoreboard_start s) @
                [(now (Scoreboard_start s) + 50, AddOpenShow, \<lparr>ctype = t, elem = Some e\<rparr>)],
            openCards := openCards (Scoreboard_start s) @ [\<lparr>ctype = t, elem = Some e\<rparr>]\<rparr>)"
    by (intro Game_openCard_Some) simp
  then show ?thesis using Some
    by (simp add: Game_handleCardClick_def Let_def openCards_resolve)
qed

lemma handleCardClick_frame [simp]:
  "deck (Game_handleCardClick e s) = deck s" "nextElem (Game_handleCardClick e s) = nextElem s"
  "deckElem (Game_handleCardClick e s) = deckElem s" "now (Game_handleCardClick e s) = now s"
  "random (Game_handleCardClick e s) = random s"
  "mult64 (Game_handleCardClick e s) = mult64 s"
  "markupChildClass (Game_handleCardClick e s) = markupChildClass s"
  "randomPos (Game_handleCardClick e s) = randomPos s"
  "(''card'' \<in> classes (elems (Game_handleCardClick e s) x)) = (''card'' \<in> classes (elems s x))"
  by (auto simp add: Game_handleCardClick_def Let_def Game_openCard_def Card_fromElem_def
      split: option.split)

subsection \<open>Start of the game\<close>

lemma new_Game_fields [simp]:
  "deck (new_Game d w) = d" "matches (new_Game d w) = 0"
  "scoreboard (new_Game d w) = new_Scoreboard" "openCards (new_Game d w) = []"
  "elems (new_Game d w) = elems w" "nextElem (new_Game d w) = nextElem w"
  "deckElem (new_Game d w) = deckElem w" "starsElem (new_Game d w) = starsElem w"
  "movesText (new_Game d w) = movesText w" "timeTakenText (new_Game d w) = timeTakenText w"
  "modalVisible (new_Game d w) = modalVisible w" "now (new_Game d w) = now w"
  "timeouts (new_Game d w) = timeouts w" "random (new_Game d w) = random w"
  "mult64 (new_Game d w) = mult64 w"
  "markupChildClass (new_Game d w) = markupChildClass w"
  "randomPos (new_Game d w) = randomPos w"
  by (simp_all add: new_Game_def)

lemma Game_start_frame [simp]:
  "matches (Game_start s) = matches s" "scoreboard (Game_start s) = scoreboard s"
  "openCards (Game_start s) = openCards s" "starsElem (Game_start s) = starsElem s"
  "movesText (Game_start s) = movesText s" "timeTakenText (Game_start s) = timeTakenText s"
  "modalVisible (Game_start s) = modalVisible s" "now (Game_start s) = now s"
  "timeouts (Game_start s) = timeouts s" "random (Game_start s) = random s"
  "mult64 (Game_start s) = mult64 s"
  "markupChildClass (Game_start s) = markupChildClass s"
  by (simp_all add: Game_start_def Let_def)

lemma Game_start_fields:
  "deck (Game_start s) = Deck_shuffle (mult64 s) (random s) (randomPos s) (deck s)"
  "randomPos (Game_start s) = randomPos s + length (cards (deck s))"
  "nextElem (Game_start s) = nextElem s + length (cards (deck s))"
  "deckElem (Game_start s) = [nextElem s ..< nextElem s + length (cards (deck s))]"
  by (simp_all add: Game_start_def Let_def Deck_display_fields)

lemma Game_start_elems:
  assumes "x \<in> set (deckElem (Game_start s))"
  shows "elems (Game_start s) x =
     \<lparr>classes = {''card''},
      childClass =
        markupChildClass s (Card_toHtml (cards (deck (Game_start s)) ! (x - nextElem s))),
      handlers = 1\<rparr>"
proof -
  let ?s1 = "Deck_display s"
  have r: "Game_start s = on_click (deckElem ?s1) ?s1"
    by (simp add: Game_start_def Let_def sel_card_Deck_display)
  have x: "x \<in> set (deckElem ?s1)" using assms by (simp add: r)
  then have "nextElem s \<le> x \<and> x < nextElem s + length (cards (deck s))"
    by (simp add: Deck_display_fields)
  then have "elems ?s1 x =
      \<lparr>classes = {''card''},
       childClass = markupChildClass s (Card_toHtml (cards (deck ?s1) ! (x - nextElem s))),
       handlers = 0\<rparr>"
    by (simp add: Deck_display_elems)
  then show ?thesis using x
    by (simp add: r on_click_def)
qed

subsection \<open>Invariants of the run\<close>

lemma funpow_preserves:
  assumes "\<And>s. P s \<Longrightarrow> P (f s)" and "P s"
  shows "P ((f ^^ n) s)"
  using assms by (induction n) simp_all

lemma run_preserves:
  assumes "P s" and "\<And>s ev. P s \<Longrightarrow> P (step s ev)"
  shows "P (run evs s)"
  using assms by (induction evs rule: rev_induct) (simp_all add: run_def)

lemma Game_handlePlayAgain_eq:
  "Game_handlePlayAgain s = Game_handleRestart (s\<lparr>modalVisible := \<not> modalVisible s\<rparr>)"
  by (simp add: Game_handlePlayAgain_def Scoreboard_closeFinalScores_def)

lemma Game_handleScoreModalClose_frame [simp]:
  "deck (Game_handleScoreModalClose s) = deck s"
  "matches (Game_handleScoreModalClose s) = matches s"
  "scoreboard (Game_handleScoreModalClose s) = scoreboard s"
  "openCards (Game_handleScoreModalClose s) = openCards s"
  "elems (Game_handleScoreModalClose s) = elems s"
  "nextElem (Game_handleScoreModalClose s) = nextElem s"
  "deckElem (Game_handleScoreModalClose s) = deckElem s"
  "now (Game_handleScoreModalClose s) = now s"
  "timeouts (Game_handleScoreModalClose s) = timeouts s"
  "random (Game_handleScoreModalClose s) = random s"
  "mult64 (Game_handleScoreModalClose s) = mult64 s"
  "markupChildClass (Game_handleScoreModalClose s) = markupChildClass s"
  "randomPos (Game_handleScoreModalClose s) = randomPos s"
  by (simp_all add: Game_handleScoreModalClose_def)

lemma pending_le_1_click:
  "length (openCards s) \<le> 1 \<Longrightarrow> length (openCards (Game_handleCardClick e s)) \<le> 1"
  by (simp add: handleCardClick_openCards split: option.split)

lemma click_card_preserves:
  assumes "\<And>e s. P s \<Longrightarrow> P (Game_handleCardClick e s)" and "P s"
  shows "P (click_card p s)"
proof (cases "p < length (deckElem s)")
  case True
  have "P ((Game_handleCardClick (deckElem s ! p) ^^ handlers (elems s (deckElem s ! p))) s)"
    using assms by (intro funpow_preserves [where P = P]) blast+
  with True show ?thesis by (simp add: click_card_def)
next
  case False
  with assms(2) show ?thesis by (simp add: click_card_def)
qed

lemma pending_le_1_step:
  assumes "length (openCards s) \<le> 1"
  shows "length (openCards (step s ev)) \<le> 1"
proof (cases ev)
  case (CardClick p)
  have "length (openCards (click_card p s)) \<le> 1"
    using assms
    by (intro click_card_preserves [where P = "\<lambda>s. length (openCards s) \<le> 1"])
      (rule pending_le_1_click)
  with CardClick show ?thesis by simp
qed (use assms in \<open>simp_all add: Game_handlePlayAgain_def\<close>)

lemma pending_le_1_run: "length (openCards (run evs (main cardTypes w))) \<le> 1"
proof (rule run_preserves [where P = "\<lambda>s. length (openCards s) \<le> 1"])
  show "length (openCards (main cardTypes w)) \<le> 1" by (simp add: main_def)
next
  fix s :: state and ev
  assume "length (openCards s) \<le> 1"
  then show "length (openCards (step s ev)) \<le> 1" by (rule pending_le_1_step)
qed

lemma handleCardClick_timeouts:
  "x \<in> set (timeouts (Game_handleCardClick e s)) \<Longrightarrow>
     x \<in> set (timeouts s) \<or> fst x \<le> now s + 800"
  by (auto simp add: Game_handleCardClick_def Let_def Game_openCard_def Card_fromElem_def
      Card_show_def resolve_timeouts split: option.splits if_splits)

lemma resolve_elements:
  assumes "\<forall>e \<in> set (deckElem s).
       ''card'' \<in> classes (elems s e) \<and> handlers (elems s e) \<le> 1 \<and>
       (''match'' \<in> classes (elems s e) \<longrightarrow> handlers (elems s e) = 0)"
    and "e \<in> set (deckElem s)"
  shows "handlers (elems (resolve s) e) \<le> 1 \<and>
       (''match'' \<in> classes (elems (resolve s) e) \<longrightarrow> handlers (elems (resolve s) e) = 0)"
proof (cases "length (openCards s) > 1 \<and> Game_isMatched s")
  case True
  then obtain c0 c1 rest where oc: "openCards s = c0 # c1 # rest"
    by (cases "openCards s"; simp; cases "tl (openCards s)"; simp)
  have sel: "e \<in> set (sel_card s)"
    using assms by (simp add: sel_card_def)
  have "elems (resolve s) = elems (Game_lockMatched s)"
    using True by (simp add: resolve_def Let_def)
  then show ?thesis
    using sel by (simp add: Game_lockMatched_handlers [OF oc])
next
  case False
  then have "elems (resolve s) = elems s"
    by (auto simp add: resolve_def Let_def)
  then show ?thesis using assms by simp
qed

lemma handleCardClick_elements:
  assumes "\<forall>e \<in> set (deckElem s).
       ''card'' \<in> classes (elems s e) \<and> handlers (elems s e) \<le> 1 \<and>
       (''match'' \<in> classes (elems s e) \<longrightarrow> handlers (elems s e) = 0)"
    and "e \<in> set (deckElem s)"
  shows "handlers (elems (Game_handleCardClick t s) e) \<le> 1 \<and>
       (''match'' \<in> classes (elems (Game_handleCardClick t s) e) \<longrightarrow>
          handlers (elems (Game_handleCardClick t s) e) = 0)"
proof (cases "hasClass ''open'' t s")
  case True
  then show ?thesis using assms by (simp add: Game_handleCardClick_def)
next
  case False
  show ?thesis
  proof (cases "Game_openCard t (Scoreboard_start s)")
    case None
    then show ?thesis using False assms by (simp add: Game_handleCardClick_def)
  next
    case (Some s2)
    then have s2: "elems s2 = elems s" "deckElem s2 = deckElem s"
      by (auto simp add: Game_openCard_def split: option.splits)
    have "Game_handleCardClick t s = resolve s2"
      using False Some by (simp add: Game_handleCardClick_def)
    then show ?thesis
      using resolve_elements [of s2 e] assms by (simp add: s2)
  qed
qed

lemma invariant_click: "invariant s \<Longrightarrow> invariant (Game_handleCardClick e s)"
  unfolding invariant_def
proof (intro conjI ballI)
  assume inv: "length (openCards s) \<le> 1 \<and> (\<forall>c \<in> set (openCards s). elem c \<noteq> None) \<and>
     (\<forall>x \<in> set (timeouts s). fst x \<le> now s + 800) \<and>
     (\<forall>e \<in> set (deckElem s).
        ''card'' \<in> classes (elems s e) \<and> handlers (elems s e) \<le> 1 \<and>
        (''match'' \<in> classes (elems s e) \<longrightarrow> handlers (elems s e) = 0))"
  show "length (openCards (Game_handleCardClick e s)) \<le> 1"
    using inv by (intro pending_le_1_click) simp
  show "elem c \<noteq> None" if "c \<in> set (openCards (Game_handleCardClick e s))" for c
    using that inv by (auto simp add: handleCardClick_openCards split: if_splits option.splits)
  show "fst x \<le> now (Game_handleCardClick e s) + 800"
    if "x \<in> set (timeouts (Game_handleCardClick e s))" for x
    using handleCardClick_timeouts [OF that] inv by auto
  fix x
  assume x: "x \<in> set (deckElem (Game_handleCardClick e s))"
  then show "''card'' \<in> classes (elems (Game_handleCardClick e s) x)"
    using inv by simp
  show "handlers (elems (Game_handleCardClick e s) x) \<le> 1"
    using handleCardClick_elements [of s x e] inv x by simp
  show "''match'' \<in> classes (elems (Game_handleCardClick e s) x) \<longrightarrow>
        handlers (elems (Game_handleCardClick e s) x) = 0"
    using handleCardClick_elements [of s x e] inv x by simp
qed

lemma invariant_restart: "invariant s \<Longrightarrow> invariant (Game_handleRestart s)"
  unfolding invariant_def
  by (auto simp add: Game_handleRestart_elems)

lemma invariant_elapse: "invariant s \<Longrightarrow> invariant (elapse d s)"
  unfolding invariant_def by auto

lemma invariant_step: "invariant s \<Longrightarrow> invariant (step s ev)"
proof (cases ev)
  case (CardClick p)
  assume "invariant s"
  then have "invariant (click_card p s)"
    by (intro click_card_preserves [where P = invariant]) (rule invariant_click)
  with CardClick show ?thesis by simp
next
  case YesClick
  assume "invariant s"
  then have "invariant (s\<lparr>modalVisible := \<not> modalVisible s\<rparr>)"
    by (simp add: invariant_def)
  then show ?thesis
    unfolding YesClick step.simps Game_handlePlayAgain_eq by (rule invariant_restart)
qed (simp_all add: invariant_restart invariant_elapse, simp_all add: invariant_def)

lemma invariant_main:
  assumes "\<forall>x \<in> set (timeouts w). fst x \<le> now w + 800"
  shows "invariant (main cardTypes w)"
  unfolding invariant_def main_def using assms
  by (auto simp add: Game_start_elems)

lemma invariant_run:
  assumes "\<forall>x \<in> set (timeouts w). fst x \<le> now w + 800"
  shows "invariant (run evs (main cardTypes w))"
  using invariant_main [OF assms] invariant_step by (rule run_preserves)

text \<open>What the guard on the class \<^verbatim>\<open>open\<close> and the unbinding of matched cards give.\<close>

lemma click_open_card_ignored:
  assumes "p < length (deckElem s)" and "hasClass ''open'' (deckElem s ! p) s"
  shows "click_card p s = s"
proof -
  have "Game_handleCardClick (deckElem s ! p) s = s"
    using assms(2) by (simp add: Game_handleCardClick_def)
  then have "(Game_handleCardClick (deckElem s ! p) ^^ n) s = s" for n
    by (induction n) simp_all
  then show ?thesis by (simp add: click_card_def)
qed

lemma click_matched_card_ignored:
  assumes "invariant s" and "p < length (deckElem s)"
    and "''match'' \<in> classes (elems s (deckElem s ! p))"
  shows "click_card p s = s"
proof -
  have "deckElem s ! p \<in> set (deckElem s)" using assms(2) by simp
  then have "handlers (elems s (deckElem s ! p)) = 0"
    using assms(1,3) unfolding invariant_def by blast
  then show ?thesis by (simp add: click_card_def)
qed

subsection \<open>Evaluating the examples\<close>

lemmas eval_defs = main_def new_Game_def new_Deck_def new_Card_def new_Scoreboard_def Game_start_def
  Deck_display_def Deck_shuffle_def append_card_def quoted_child_class_def Card_toHtml_def attr_value_def
  sel_card_def on_click_def off_click_def not_match_def run_def click_card_def Game_handleCardClick_def
  hasClass_def Scoreboard_start_def Game_openCard_def Card_fromElem_def Card_determineType_def
  Card_show_def Card_hide_def Card_lock_def resolve_def Game_isMatched_def Card_isEqual_def Game_lockMatched_def
  Game_hideUnmatched_def addClass_def removeClass_def Deck_getCardTypeCount_def Game_finish_def
  Scoreboard_showFinalScores_def Scoreboard_incrementMoves_def Scoreboard_updateScore_def
  elapse_def run_timeout_def interval_ticks_def Scoreboard_updateTimeTaken_def
  Game_handleRestart_def Scoreboard_reset_def example_page_def shuffle_loop.simps Let_def

subsection \<open>A second card of another type\<close>

text \<open>
  C3: a click on a card without the class \<^verbatim>\<open>open\<close>, while one card of another type
  is pending, counts one move, leaves the number of matches, empties the pending cards,
  and sets the timeouts that hide both cards 800 ms from now (after the one that shows
  the second card, 50 ms from now). When no timeout set earlier is due later than that,
  as in every state the game reaches, both cards are without the classes \<^verbatim>\<open>open\<close>
  and \<^verbatim>\<open>show\<close> once the 800 ms have passed.
\<close>

theorem handleCardClick_mismatch:
  assumes "openCards s = [c0]" and "elem c0 = Some e0"
    and "\<not> hasClass ''open'' cardElem s"
    and "Card_determineType (elems s cardElem) = Some t"
    and "t \<noteq> ctype c0"
    and "s' = Game_handleCardClick cardElem s"
  shows "moves (scoreboard s') = moves (scoreboard s) + 1 \<and>
         matches s' = matches s \<and>
         openCards s' = [] \<and>
         timeouts s' = timeouts s @
           [(now s + 50, AddOpenShow, \<lparr>ctype = t, elem = Some cardElem\<rparr>),
            (now s + 800, RemoveOpenShow, c0),
            (now s + 800, RemoveOpenShow, \<lparr>ctype = t, elem = Some cardElem\<rparr>)] \<and>
         ((\<forall>x \<in> set (timeouts s). fst x \<le> now s + 800) \<longrightarrow>
            classes (elems (elapse 800 s') e0) \<inter> {''open'', ''show''} = {} \<and>
            classes (elems (elapse 800 s') cardElem) \<inter> {''open'', ''show''} = {})"
proof -
  let ?c1 = "\<lparr>ctype = t, elem = Some cardElem\<rparr>"
  let ?s1 = "Scoreboard_start s"
  let ?s2 = "?s1\<lparr>timeouts := timeouts s @ [(now s + 50, AddOpenShow, ?c1)],
            openCards := [c0, ?c1]\<rparr>"
  have opened: "Game_openCard cardElem ?s1 = Some ?s2"
    using assms(1,4) by (simp add: Game_openCard_Some)
  have nm: "\<not> Game_isMatched ?s2"
    using assms(5) by (simp add: Game_isMatched_def Card_isEqual_def)
  have hide: "Game_hideUnmatched ?s2 = ?s2\<lparr>timeouts := timeouts ?s2 @
       [(now s + 800, RemoveOpenShow, c0), (now s + 800, RemoveOpenShow, ?c1)]\<rparr>"
    by (subst Game_hideUnmatched_two [of _ c0 ?c1]) simp_all
  have "s' = resolve ?s2"
    using assms(3,6) opened by (simp add: Game_handleCardClick_def)
  also have "\<dots> = Scoreboard_incrementMoves ((Game_hideUnmatched ?s2)\<lparr>openCards := []\<rparr>)"
    using nm by (simp add: resolve_def)
  finally have s': "s' = Scoreboard_incrementMoves ((Game_hideUnmatched ?s2)\<lparr>openCards := []\<rparr>)" .
  have fields: "moves (scoreboard s') = moves (scoreboard s) + 1" "matches s' = matches s"
    "openCards s' = []" "now s' = now s"
    unfolding s' hide by simp_all
  have ts: "timeouts s' = (timeouts s @ [(now s + 50, AddOpenShow, ?c1)]) @
      [(now s + 800, RemoveOpenShow, c0), (now s + 800, RemoveOpenShow, ?c1)]"
    unfolding s' hide by simp
  have due: "now s + 800 \<le> now s' + 800" by (simp add: fields)
  have hidden: "classes (elems (elapse 800 s') e0) \<inter> {''open'', ''show''} = {} \<and>
      classes (elems (elapse 800 s') cardElem) \<inter> {''open'', ''show''} = {}"
    if "\<forall>x \<in> set (timeouts s). fst x \<le> now s + 800"
  proof -
    from that
    have early: "\<forall>x \<in> set (timeouts s @ [(now s + 50, AddOpenShow, ?c1)]). fst x \<le> now s + 800"
      by simp
    have "classes (elems (elapse 800 s') e0) \<inter> {''open'', ''show''} = {}"
      by (rule elapse_hidden(1) [OF ts early due assms(2)])
    moreover have "classes (elems (elapse 800 s') cardElem) \<inter> {''open'', ''show''} = {}"
      by (rule elapse_hidden(2) [OF ts early due]) simp
    ultimately show ?thesis by simp
  qed
  show ?thesis using fields ts hidden by simp
qed

lemma example_pending_fields:
  "openCards example_pending = [\<lparr>ctype = ''a'', elem = Some 0\<rparr>]"
  "elems example_pending 0 = \<lparr>classes = {''card''}, childClass = Some ''fa fa-a'', handlers = 1\<rparr>"
  "elems example_pending 2 = \<lparr>classes = {''card''}, childClass = Some ''fa fa-b'', handlers = 1\<rparr>"
  "elems example_pending 3 = \<lparr>classes = {''card''}, childClass = Some ''fa fa-a'', handlers = 1\<rparr>"
  "timeouts example_pending = [(50, AddOpenShow, \<lparr>ctype = ''a'', elem = Some 0\<rparr>)]"
  "now example_pending = 0" "matches example_pending = 0"
  "moves (scoreboard example_pending) = 0" "modalVisible example_pending = False"
  "deckElem example_pending = [0, 1, 2, 3]"
  "map ctype (cards (deck example_pending)) = [''a'', ''b'', ''b'', ''a'']"
  "cardTypeCount (deck example_pending) = 2"
  by (simp_all add: example_pending_def eval_defs)

theorem handleCardClick_mismatch_witness:
  "openCards example_pending = [\<lparr>ctype = ''a'', elem = Some 0\<rparr>] \<and>
   \<not> hasClass ''open'' 2 example_pending \<and>
   Card_determineType (elems example_pending 2) = Some ''b'' \<and>
   moves (scoreboard (Game_handleCardClick 2 example_pending)) = 1 \<and>
   matches (Game_handleCardClick 2 example_pending) = 0 \<and>
   openCards (Game_handleCardClick 2 example_pending) = [] \<and>
   timeouts (Game_handleCardClick 2 example_pending) =
     [(50, AddOpenShow, \<lparr>ctype = ''a'', elem = Some 0\<rparr>),
      (50, AddOpenShow, \<lparr>ctype = ''b'', elem = Some 2\<rparr>),
      (800, RemoveOpenShow, \<lparr>ctype = ''a'', elem = Some 0\<rparr>),
      (800, RemoveOpenShow, \<lparr>ctype = ''b'', elem = Some 2\<rparr>)] \<and>
   classes (elems (elapse 800 (Game_handleCardClick 2 example_pending)) 0) \<inter> {''open'', ''show''} = {} \<and>
   classes (elems (elapse 800 (Game_handleCardClick 2 example_pending)) 2) \<inter> {''open'', ''show''} = {}"
proof -
  have h1: "openCards example_pending = [\<lparr>ctype = ''a'', elem = Some 0\<rparr>]"
    by (simp add: example_pending_fields)
  have h2: "elem \<lparr>ctype = ''a'', elem = Some 0\<rparr> = Some 0" by simp
  have h3: "\<not> hasClass ''open'' 2 example_pending"
    by (simp add: hasClass_def example_pending_fields)
  have h4: "Card_determineType (elems example_pending 2) = Some ''b''"
    by (simp add: Card_determineType_def example_pending_fields)
  have h5: "''b'' \<noteq> ctype \<lparr>ctype = ''a'', elem = Some 0\<rparr>" by simp
  have h6: "\<forall>x \<in> set (timeouts example_pending). fst x \<le> now example_pending + 800"
    by (simp add: example_pending_fields)
  show ?thesis
    using handleCardClick_mismatch [OF h1 h2 h3 h4 h5 refl] h1 h3 h4 h6
    by (simp add: example_pending_fields)
qed

lemma example_last_pair_fields:
  "openCards example_last_pair = [\<lparr>ctype = ''a'', elem = Some 0\<rparr>]"
  "elems example_last_pair 3 =
     \<lparr>classes = {''card''}, childClass = Some ''fa fa-a'', handlers = 1\<rparr>"
  "matches example_last_pair = 1" "moves (scoreboard example_last_pair) = 1"
  "modalVisible example_last_pair = False"
  "cardTypeCount (deck example_last_pair) = 2"
  by (simp_all add: example_last_pair_def eval_defs)

subsection \<open>A second card of the same type\<close>

text \<open>
  C2: a click on a card without the class \<^verbatim>\<open>open\<close>, while one card of the same type
  is pending, gives both cards the class \<^verbatim>\<open>match\<close>, empties the pending cards,
  counts one move and one match, and calls \<^verbatim>\<open>finish\<close> (the score modal is toggled
  and the clock stopped) exactly when the matches have reached
  \<^verbatim>\<open>deck.getCardTypeCount()\<close>, the number of types the deck was built from.
\<close>

theorem handleCardClick_match:
  assumes "openCards s = [c0]" and "elem c0 = Some e0"
    and "\<not> hasClass ''open'' cardElem s"
    and "Card_determineType (elems s cardElem) = Some t"
    and "t = ctype c0"
    and "s' = Game_handleCardClick cardElem s"
  shows "''match'' \<in> classes (elems s' e0) \<and> ''match'' \<in> classes (elems s' cardElem) \<and>
         openCards s' = [] \<and>
         moves (scoreboard s') = moves (scoreboard s) + 1 \<and>
         matches s' = matches s + 1 \<and>
         (if matches s' \<ge> Deck_getCardTypeCount (deck s')
          then modalVisible s' = (\<not> modalVisible s) \<and> timerId (scoreboard s') = None
          else modalVisible s' = modalVisible s)"
proof -
  let ?c1 = "\<lparr>ctype = t, elem = Some cardElem\<rparr>"
  let ?s1 = "Scoreboard_start s"
  let ?s2 = "?s1\<lparr>timeouts := timeouts s @ [(now s + 50, AddOpenShow, ?c1)],
            openCards := [c0, ?c1]\<rparr>"
  have opened: "Game_openCard cardElem ?s1 = Some ?s2"
    using assms(1,4) by (simp add: Game_openCard_Some)
  have oc: "openCards ?s2 = c0 # ?c1 # []" by simp
  have m: "Game_isMatched ?s2"
    using assms(5) by (simp add: Game_isMatched_def Card_isEqual_def)
  have "s' = resolve ?s2"
    using assms(3,6) opened by (simp add: Game_handleCardClick_def)
  also have "\<dots> = Scoreboard_incrementMoves ((Game_lockMatched ?s2)\<lparr>openCards := []\<rparr>)"
    using m by (simp add: resolve_def)
  finally have s': "s' = Scoreboard_incrementMoves ((Game_lockMatched ?s2)\<lparr>openCards := []\<rparr>)" .
  have 1: "''match'' \<in> classes (elems s' e0)" "''match'' \<in> classes (elems s' cardElem)"
    unfolding s' using assms(2) by (simp_all add: Game_lockMatched_classes [OF oc])
  have 2: "openCards s' = []" "moves (scoreboard s') = moves (scoreboard s) + 1"
    "matches s' = matches s + 1"
    unfolding s' by (simp_all add: Game_lockMatched_frame [OF oc])
  have 3: "deck s' = deck s" "modalVisible s' =
      (if matches s + 1 \<ge> cardTypeCount (deck s) then \<not> modalVisible s else modalVisible s)"
    "timerId (scoreboard s') =
      (if matches s + 1 \<ge> cardTypeCount (deck s) then None else timerId (scoreboard ?s1))"
    unfolding s' by (simp_all add: Game_lockMatched_frame [OF oc])
  show ?thesis using 1 2 3 by (simp add: Deck_getCardTypeCount_def)
qed

theorem handleCardClick_match_witness:
  "openCards example_last_pair = [\<lparr>ctype = ''a'', elem = Some 0\<rparr>] \<and>
   \<not> hasClass ''open'' 3 example_last_pair \<and>
   Card_determineType (elems example_last_pair 3) = Some ''a'' \<and>
   ''match'' \<in> classes (elems (Game_handleCardClick 3 example_last_pair) 0) \<and>
   ''match'' \<in> classes (elems (Game_handleCardClick 3 example_last_pair) 3) \<and>
   openCards (Game_handleCardClick 3 example_last_pair) = [] \<and>
   moves (scoreboard (Game_handleCardClick 3 example_last_pair)) = 2 \<and>
   matches (Game_handleCardClick 3 example_last_pair) = 2 \<and>
   Deck_getCardTypeCount (deck (Game_handleCardClick 3 example_last_pair)) = 2 \<and>
   modalVisible (Game_handleCardClick 3 example_last_pair) \<and>
   timerId (scoreboard (Game_handleCardClick 3 example_last_pair)) = None"
proof -
  have h1: "openCards example_last_pair = [\<lparr>ctype = ''a'', elem = Some 0\<rparr>]"
    by (simp add: example_last_pair_fields)
  have h2: "elem \<lparr>ctype = ''a'', elem = Some 0\<rparr> = Some 0" by simp
  have h3: "\<not> hasClass ''open'' 3 example_last_pair"
    by (simp add: hasClass_def example_last_pair_fields)
  have h4: "Card_determineType (elems example_last_pair 3) = Some ''a''"
    by (simp add: Card_determineType_def example_last_pair_fields)
  have h5: "''a'' = ctype \<lparr>ctype = ''a'', elem = Some 0\<rparr>" by simp
  have d: "deck (Game_handleCardClick 3 example_last_pair) = deck example_last_pair"
    by simp
  show ?thesis
    using handleCardClick_match [OF h1 h2 h3 h4 h5 refl] h1 h3 h4
    by (simp add: example_last_pair_fields d Deck_getCardTypeCount_def)
qed

subsection \<open>A second click on the pending card\<close>

text \<open>
  C5, at the input where the code departs from it. Card 0 is the sole pending card and
  its \<^verbatim>\<open>show\<close> timeout (50 ms) has not run, so it does not have the class
  \<^verbatim>\<open>open\<close> yet. A second click on it is not ignored: the card is pushed again,
  compared with itself and locked, and a match and a move are counted. Once the 50 ms
  have passed the same click is ignored.
\<close>

theorem double_click_matches_card_with_itself:
  "openCards example_pending = [\<lparr>ctype = ''a'', elem = Some 0\<rparr>] \<and>
   deckElem example_pending ! 0 = 0 \<and>
   matches example_pending = 0 \<and> moves (scoreboard example_pending) = 0 \<and>
   ''match'' \<notin> classes (elems example_pending 0) \<and>
   matches (step example_pending (CardClick 0)) = 1 \<and>
   moves (scoreboard (step example_pending (CardClick 0))) = 1 \<and>
   ''match'' \<in> classes (elems (step example_pending (CardClick 0)) 0) \<and>
   openCards (step example_pending (CardClick 0)) = [] \<and>
   step example_pending (CardClick 0) \<noteq> example_pending \<and>
   step (step example_pending (Elapse 50)) (CardClick 0) = step example_pending (Elapse 50)"
proof -
  have a: "openCards example_pending = [\<lparr>ctype = ''a'', elem = Some 0\<rparr>]"
    "deckElem example_pending ! 0 = 0" "matches example_pending = 0"
    "moves (scoreboard example_pending) = 0" "''match'' \<notin> classes (elems example_pending 0)"
    by (simp_all add: example_pending_fields)
  have b: "matches (step example_pending (CardClick 0)) = 1"
    "moves (scoreboard (step example_pending (CardClick 0))) = 1"
    "''match'' \<in> classes (elems (step example_pending (CardClick 0)) 0)"
    "openCards (step example_pending (CardClick 0)) = []"
    by (simp_all add: example_pending_def eval_defs)
  have c: "step example_pending (CardClick 0) \<noteq> example_pending"
    using a(3) b(1) by auto
  have "hasClass ''open'' (deckElem (elapse 50 example_pending) ! 0) (elapse 50 example_pending)"
    by (simp add: example_pending_def eval_defs)
  then have d: "step (step example_pending (Elapse 50)) (CardClick 0) = step example_pending (Elapse 50)"
    by (simp add: click_open_card_ignored example_pending_fields)
  show ?thesis using a b c d by simp
qed

subsection \<open>Pending cards\<close>

lemma run_preserves_events:
  assumes "P s" and "\<forall>ev \<in> set evs. Q ev" and "\<And>s ev. P s \<Longrightarrow> Q ev \<Longrightarrow> P (step s ev)"
  shows "P (run evs s)"
  using assms by (induction evs rule: rev_induct) (simp_all add: run_def)

lemma main_fields:
  "matches (main ts w) = 0" "openCards (main ts w) = []"
  "scoreboard (main ts w) = new_Scoreboard" "modalVisible (main ts w) = modalVisible w"
  "now (main ts w) = now w" "timeouts (main ts w) = timeouts w"
  "cardTypeCount (deck (main ts w)) = length ts"
  "length (cards (deck (main ts w))) = 2 * length ts"
  "deckElem (main ts w) = [nextElem w ..< nextElem w + 2 * length ts]"
  by (simp_all add: main_def Game_start_fields Deck_shuffle_def length_shuffle_loop
      length_new_Deck) (simp add: new_Deck_def)

text \<open>
  C9: after any sequence of inputs at most one card is pending; the one place where
  there are two is inside \<^verbatim>\<open>handleCardClick\<close>, between the push of
  \<^verbatim>\<open>openCard\<close> and the rest of the handler, which empties the list again.
\<close>

theorem pending_at_most_two:
  "length (openCards (run evs (main cardTypes w))) \<le> 1 \<and>
   (\<forall>cardElem s2.
      Game_openCard cardElem (Scoreboard_start (run evs (main cardTypes w))) = Some s2 \<longrightarrow>
        length (openCards s2) \<le> 2 \<and>
        (length (openCards s2) = 2 \<longrightarrow> openCards (resolve s2) = []))"
proof -
  let ?s = "run evs (main cardTypes w)"
  have le: "length (openCards ?s) \<le> 1" by (rule pending_le_1_run)
  have "length (openCards s2) \<le> 2 \<and> (length (openCards s2) = 2 \<longrightarrow> openCards (resolve s2) = [])"
    if "Game_openCard cardElem (Scoreboard_start ?s) = Some s2" for cardElem s2
  proof -
    from that obtain c where "openCards s2 = openCards ?s @ [c]"
      by (auto simp add: Game_openCard_def split: option.splits)
    then show ?thesis using le by (simp add: openCards_resolve)
  qed
  with le show ?thesis by blast
qed

theorem pending_at_most_two_witness:
  "length (openCards example_pending) = 1 \<and>
   Game_openCard 2 (Scoreboard_start example_pending) \<noteq> None \<and>
   length (openCards (the (Game_openCard 2 (Scoreboard_start example_pending)))) = 2 \<and>
   openCards (resolve (the (Game_openCard 2 (Scoreboard_start example_pending)))) = []"
proof -
  have a: "length (openCards example_pending) = 1"
    by (simp add: example_pending_fields)
  have "Card_determineType (elems (Scoreboard_start example_pending) 2) = Some ''b''"
    by (simp add: Card_determineType_def example_pending_fields)
  from Game_openCard_Some [OF this]
  have b: "Game_openCard 2 (Scoreboard_start example_pending) \<noteq> None"
    and c: "length (openCards (the (Game_openCard 2 (Scoreboard_start example_pending)))) = 2"
    by (simp_all add: example_pending_fields)
  from b have "Game_openCard 2 (Scoreboard_start example_pending) =
      Some (the (Game_openCard 2 (Scoreboard_start example_pending)))" by simp
  with pending_at_most_two [of "[CardClick 0]" "[''a'', ''b'']" example_page] c
  have "openCards (resolve (the (Game_openCard 2 (Scoreboard_start example_pending)))) = []"
    unfolding example_pending_def [symmetric] by blast
  with a b c show ?thesis by simp
qed

subsection \<open>Restart\<close>

text \<open>
  C6: \<^verbatim>\<open>handleRestart\<close>, from any state, leaves no pending card, no match and no
  move (three stars, clock stopped), and the page shows one new element for each card of
  the deck, in the deck's order, with the class \<^verbatim>\<open>card\<close> alone (neither open nor
  matched), one click handler, and the class attribute the page gives the card's
  markup. The deck is the old deck put through \<^verbatim>\<open>shuffle\<close> with fresh draws, with
  the same type count; and when \<^verbatim>\<open>Math.random\<close> and the multiplication of doubles do
  what the language promises of them, it has the same cards.
\<close>

theorem handleRestart_resets:
  assumes "s' = Game_handleRestart s"
  shows "openCards s' = [] \<and> matches s' = 0 \<and>
         moves (scoreboard s') = 0 \<and> stars (scoreboard s') = 3 \<and>
         timerId (scoreboard s') = None \<and>
         (ieee_draws (mult64 s) (random s) (length (cards (deck s))) \<longrightarrow>
            mset (cards (deck s')) = mset (cards (deck s))) \<and>
         cardTypeCount (deck s') = cardTypeCount (deck s) \<and>
         deck s' = Deck_shuffle (mult64 s) (random s) (randomPos s) (deck s) \<and>
         randomPos s' = randomPos s + length (cards (deck s)) \<and>
         length (cards (deck s')) = length (cards (deck s)) \<and>
         length (deckElem s') = length (cards (deck s')) \<and>
         (\<forall>i < length (deckElem s').
            nextElem s \<le> deckElem s' ! i \<and>
            elems s' (deckElem s' ! i) =
              \<lparr>classes = {''card''},
               childClass = markupChildClass s (Card_toHtml (cards (deck s') ! i)),
               handlers = 1\<rparr>)"
proof -
  have m: "mset (cards (deck s')) = mset (cards (deck s))"
    if "ieee_draws (mult64 s) (random s) (length (cards (deck s)))"
    using that assms by (simp add: Game_handleRestart_fields Deck_shuffle_def shuffle_loop_mset)
  have l: "length (deckElem s') = length (cards (deck s'))"
    "length (cards (deck s')) = length (cards (deck s))"
    using assms
    by (simp_all add: Game_handleRestart_fields Deck_shuffle_def length_shuffle_loop)
  have e: "nextElem s \<le> deckElem s' ! i \<and>
           elems s' (deckElem s' ! i) =
              \<lparr>classes = {''card''},
               childClass = markupChildClass s (Card_toHtml (cards (deck s') ! i)),
               handlers = 1\<rparr>"
    if "i < length (deckElem s')" for i
  proof -
    have i: "i < length (deckElem (Game_handleRestart s))"
      using that by (simp add: assms)
    then have d: "deckElem (Game_handleRestart s) ! i = nextElem s + i"
      by (simp add: Game_handleRestart_fields)
    have "deckElem (Game_handleRestart s) ! i \<in> set (deckElem (Game_handleRestart s))"
      using i by simp
    from Game_handleRestart_elems [OF this] show ?thesis
      by (simp add: assms d)
  qed
  show ?thesis
    using m l e assms
    by (simp add: Game_handleRestart_fields Deck_shuffle_def)
qed

theorem handleRestart_resets_witness:
  "ieee_draws (mult64 example_pending) (random example_pending)
     (length (cards (deck example_pending))) \<and>
   openCards example_pending \<noteq> [] \<and>
   openCards (Game_handleRestart example_pending) = [] \<and>
   matches (Game_handleRestart example_pending) = 0 \<and>
   moves (scoreboard (Game_handleRestart example_pending)) = 0 \<and>
   map ctype (cards (deck example_pending)) = [''a'', ''b'', ''b'', ''a''] \<and>
   map ctype (cards (deck (Game_handleRestart example_pending))) = [''b'', ''b'', ''a'', ''a''] \<and>
   mset (cards (deck (Game_handleRestart example_pending))) = mset (cards (deck example_pending)) \<and>
   deckElem (Game_handleRestart example_pending) = [4, 5, 6, 7] \<and>
   classes (elems (Game_handleRestart example_pending) 4) = {''card''}"
proof -
  have r: "random example_pending = (\<lambda>_. 0)" "mult64 example_pending = (\<lambda>x y. x * y)"
    "length (cards (deck example_pending)) = 4"
    by (simp_all add: example_pending_def eval_defs)
  have h: "ieee_draws (mult64 example_pending) (random example_pending)
     (length (cards (deck example_pending)))"
    unfolding r by (rule ieee_draws_zero) simp
  have d: "map ctype (cards (deck (Game_handleRestart example_pending))) = [''b'', ''b'', ''a'', ''a'']"
    "deckElem (Game_handleRestart example_pending) = [4, 5, 6, 7]"
    by (simp_all add: example_pending_def eval_defs)
  note R = handleRestart_resets [OF refl, of example_pending]
  from R h have f: "openCards (Game_handleRestart example_pending) = []"
    "matches (Game_handleRestart example_pending) = 0"
    "moves (scoreboard (Game_handleRestart example_pending)) = 0"
    "mset (cards (deck (Game_handleRestart example_pending))) = mset (cards (deck example_pending))"
    by blast+
  from R have "\<forall>i < length (deckElem (Game_handleRestart example_pending)).
      nextElem example_pending \<le> deckElem (Game_handleRestart example_pending) ! i \<and>
      elems (Game_handleRestart example_pending) (deckElem (Game_handleRestart example_pending) ! i) =
        \<lparr>classes = {''card''},
         childClass = markupChildClass example_pending
            (Card_toHtml (cards (deck (Game_handleRestart example_pending)) ! i)),
         handlers = 1\<rparr>"
    by blast
  from this [rule_format, of 0]
  have c: "classes (elems (Game_handleRestart example_pending) 4) = {''card''}"
    by (simp add: d(2))
  from h d f c show ?thesis by (simp add: example_pending_fields)
qed

subsection \<open>The game without cards\<close>

lemma empty_game_step:
  assumes "cards (deck s) = [] \<and> deckElem s = [] \<and> modalVisible s = b"
    and "\<not> modal_button ev"
  shows "cards (deck (step s ev)) = [] \<and> deckElem (step s ev) = [] \<and>
         modalVisible (step s ev) = b"
  using assms
  by (cases ev)
    (simp_all add: click_card_def Game_handleRestart_fields Deck_shuffle_def shuffle_loop_0)

text \<open>
  C8 (as stated): the game built from the empty type list has no cards and
  \<^verbatim>\<open>finish\<close> has been called when it is built, which would have toggled the score
  modal. On the example page the modal is as it was.
\<close>

theorem empty_game_not_finished:
  "\<not> (cards (deck (main [] example_page)) = [] \<and>
      modalVisible (main [] example_page) = (\<not> modalVisible example_page))"
  by (simp add: eval_defs)

text \<open>
  C8 (amended): the game built from the empty type list has no cards and no card
  elements, and the test of \<^verbatim>\<open>lockMatched\<close>, \<^verbatim>\<open>matches >= getCardTypeCount()\<close>,
  holds of it from the start; but \<^verbatim>\<open>finish\<close> is called from \<^verbatim>\<open>lockMatched\<close> only:
  the score modal is not toggled when the game is built, nor by any sequence of card
  clicks, restart clicks and elapsed time after that.
\<close>

theorem empty_game:
  "cards (deck (main [] w)) = [] \<and> deckElem (main [] w) = [] \<and>
   Deck_getCardTypeCount (deck (main [] w)) \<le> matches (main [] w) \<and>
   modalVisible (main [] w) = modalVisible w \<and>
   (\<forall>evs. (\<forall>ev \<in> set evs. \<not> modal_button ev) \<longrightarrow>
      modalVisible (run evs (main [] w)) = modalVisible w \<and>
      deckElem (run evs (main [] w)) = [])"
proof -
  have start: "cards (deck (main [] w)) = [] \<and> deckElem (main [] w) = [] \<and>
      modalVisible (main [] w) = modalVisible w"
    using main_fields [of "[]" w] by simp
  have "cards (deck (run evs (main [] w))) = [] \<and> deckElem (run evs (main [] w)) = [] \<and>
      modalVisible (run evs (main [] w)) = modalVisible w"
    if "\<forall>ev \<in> set evs. \<not> modal_button ev" for evs
    using start that
    by (rule run_preserves_events
        [where P = "\<lambda>s. cards (deck s) = [] \<and> deckElem s = [] \<and> modalVisible s = modalVisible w"
           and Q = "\<lambda>ev. \<not> modal_button ev"])
      (rule empty_game_step)
  then show ?thesis
    using start main_fields [of "[]" w] by (simp add: Deck_getCardTypeCount_def)
qed

theorem empty_game_witness:
  "\<not> modal_button (CardClick 0) \<and> \<not> modal_button (Elapse 1000) \<and>
   \<not> modal_button RestartClick \<and>
   cards (deck (main [] example_page)) = [] \<and>
   \<not> modalVisible (main [] example_page) \<and>
   \<not> modalVisible (run [CardClick 0, Elapse 1000, RestartClick] (main [] example_page))"
proof -
  have h: "\<forall>ev \<in> set [CardClick 0, Elapse 1000, RestartClick]. \<not> modal_button ev" by simp
  have "modalVisible example_page = False" by (simp add: example_page_def)
  with empty_game [of example_page] h show ?thesis by simp
qed

end
